theory Spec2Isabelle
  imports Main "HOL-Library.AList"
begin

section \<open>Values, objects and the world\<close>

text \<open>
  The embedding of \<^verbatim>\<open>hugo/core/middleware.py\<close>. Python values are a datatype; objects
  with identity (middleware, instances of state classes) live in a heap and are named by
  \<open>PRef\<close>; contexts live in a store of their own and are named by a number.
\<close>

text \<open>\<^verbatim>\<open>class MiddlewareResult(enum.Enum)\<close>: the two sentinels.\<close>

datatype MiddlewareResult = OK | IGNORE

text \<open>
  Classes as values: \<open>ContextState\<close> is \<^verbatim>\<open>MiddlewareState.ContextState\<close>,
  \<open>ContextStateSubclass\<close> a user class deriving from it, \<open>Named\<close> any other class.
\<close>

datatype pyclass = Named string | ContextState | ContextStateSubclass string

text \<open>
  \<open>PFunction\<close> is a plain \<^verbatim>\<open>def\<close>, \<open>PCoroutine\<close> an \<^verbatim>\<open>async def\<close>; both are named by
  a number, and a coroutine's behaviour is looked up in a function environment.
  Python's \<^verbatim>\<open>==\<close> on these values is HOL equality: enum members and objects compare by
  identity, strings, integers and tuples by structure.
\<close>

datatype pyval =
    PNone
  | PEnum MiddlewareResult
  | PStr string
  | PInt int
  | PTuple "pyval list"
  | PClass pyclass
  | PFunction nat
  | PCoroutine nat
  | PRef nat

datatype exn = ValueError string | TypeError string | AttributeError string

text \<open>The three concrete subclasses of \<^verbatim>\<open>MiddlewareCollection\<close>.\<close>

datatype collection_class = MiddlewareChain | OneOfAll | AllOfAll

text \<open>
  Heap objects, one constructor per class, holding the attributes the class sets:
  \<^item> \<open>MiddlewareFunction fn\<close>;
  \<^item> \<open>MiddlewareState state key\<close> (its \<^verbatim>\<open>fn\<close> stays \<^verbatim>\<open>None\<close>);
  \<^item> \<open>MiddlewareCollection cls fn collection\<close>;
  \<^item> \<open>UserMiddleware name run\<close>: an instance of a user subclass \<open>name\<close> of the abstract
    \<^verbatim>\<open>Middleware\<close>, whose \<^verbatim>\<open>run\<close> method is the coroutine \<open>run\<close> (its \<^verbatim>\<open>fn\<close> stays \<^verbatim>\<open>None\<close>);
  \<^item> \<open>Instance cls\<close>: an instance of a class that is not a middleware.
\<close>

datatype obj =
    MiddlewareFunction pyval
  | MiddlewareState pyval "string option"
  | MiddlewareCollection collection_class pyval "pyval list"
  | UserMiddleware string nat
  | Instance pyclass

text \<open>
  Modelled from the spec: the class \<^verbatim>\<open>Context\<close> of \<^verbatim>\<open>hugo.core.context\<close> is imported by the
  module and not part of it. A context is a mutable record with the attribute
  \<^verbatim>\<open>states\<close>, the lazily created store from a type to a value (\<open>None\<close> while the
  attribute is missing or \<^verbatim>\<open>None\<close>), and whatever else its owner keeps in it: here an
  ordered log.
\<close>

record Context =
  states :: "(pyclass \<times> pyval) list option"
  log :: "string list"

record world =
  heap :: "obj list"
  ctxs :: "nat \<Rightarrow> Context"

text \<open>
  The parameters of \<^verbatim>\<open>run(self, *args, ctx, next, **kwargs)\<close> other than \<^verbatim>\<open>self\<close> and
  \<^verbatim>\<open>next\<close>. A dict is an association list in insertion order.
\<close>

record call =
  args :: "pyval list"
  ctx :: nat
  kwargs :: "(string \<times> pyval) list"

text \<open>
  What a call does: it returns a value, raises, or does not come back within the fuel of
  \<open>run\<close> below. The world it leaves is part of the first two.
\<close>

datatype 'a outcome = Return 'a world | Raise exn world | OutOfFuel

type_synonym cont = "call \<Rightarrow> world \<Rightarrow> pyval outcome"
type_synonym coroutine = "call \<Rightarrow> cont \<Rightarrow> world \<Rightarrow> pyval outcome"
type_synonym fenv = "nat \<Rightarrow> coroutine"

text \<open>\<^verbatim>\<open>x = await e; ...\<close>: an exception of \<open>e\<close> propagates.\<close>

definition and_then :: "'a outcome \<Rightarrow> ('a \<Rightarrow> world \<Rightarrow> 'b outcome) \<Rightarrow> 'b outcome" where
  "and_then m f = (case m of Return a w \<Rightarrow> f a w | Raise e w \<Rightarrow> Raise e w | OutOfFuel \<Rightarrow> OutOfFuel)"

definition lookup :: "world \<Rightarrow> pyval \<Rightarrow> obj option" where
  "lookup w v = (case v of
      PRef r \<Rightarrow> (if r < length (heap w) then Some (heap w ! r) else None)
    | _ \<Rightarrow> None)"

text \<open>Creating an object: a reference no earlier object has.\<close>

definition new :: "obj \<Rightarrow> world \<Rightarrow> pyval outcome" where
  "new ob w = Return (PRef (length (heap w))) (w\<lparr>heap := heap w @ [ob]\<rparr>)"

definition store :: "nat \<Rightarrow> obj \<Rightarrow> world \<Rightarrow> world" where
  "store r ob w = w\<lparr>heap := (heap w)[r := ob]\<rparr>"

fun is_Middleware :: "obj \<Rightarrow> bool" where
  "is_Middleware (Instance _) = False"
| "is_Middleware _ = True"

text \<open>\<^verbatim>\<open>isinstance(v, Middleware)\<close> and \<^verbatim>\<open>isinstance(v, MiddlewareChain)\<close>.\<close>

definition isinstance_Middleware :: "world \<Rightarrow> pyval \<Rightarrow> bool" where
  "isinstance_Middleware w v = (case lookup w v of Some ob \<Rightarrow> is_Middleware ob | None \<Rightarrow> False)"

definition isinstance_MiddlewareChain :: "world \<Rightarrow> pyval \<Rightarrow> bool" where
  "isinstance_MiddlewareChain w v =
     (case lookup w v of Some (MiddlewareCollection MiddlewareChain _ _) \<Rightarrow> True | _ \<Rightarrow> False)"

text \<open>
  \<^verbatim>\<open>asyncio.iscoroutinefunction\<close>: true of an \<^verbatim>\<open>async def\<close> function only. An object
  whose class defines \<^verbatim>\<open>async def __call__\<close>, as every middleware does, is not a
  coroutine function.
\<close>

fun iscoroutinefunction :: "pyval \<Rightarrow> bool" where
  "iscoroutinefunction (PCoroutine _) = True"
| "iscoroutinefunction _ = False"

text \<open>The attribute \<^verbatim>\<open>fn\<close> of a middleware (\<^verbatim>\<open>Middleware.__init__\<close> sets it to \<^verbatim>\<open>None\<close>).\<close>

fun fn :: "obj \<Rightarrow> pyval" where
  "fn (MiddlewareFunction f) = f"
| "fn (MiddlewareCollection _ f _) = f"
| "fn _ = PNone"

fun class_name :: "collection_class \<Rightarrow> string" where
  "class_name MiddlewareChain = ''MiddlewareChain''"
| "class_name OneOfAll = ''OneOfAll''"
| "class_name AllOfAll = ''AllOfAll''"

fun class_of :: "obj \<Rightarrow> pyclass" where
  "class_of (MiddlewareFunction _) = Named ''MiddlewareFunction''"
| "class_of (MiddlewareState _ _) = Named ''MiddlewareState''"
| "class_of (MiddlewareCollection k _ _) = Named (class_name k)"
| "class_of (UserMiddleware name _) = Named name"
| "class_of (Instance k) = k"

text \<open>\<^verbatim>\<open>type(v)\<close>.\<close>

definition type_of :: "world \<Rightarrow> pyval \<Rightarrow> pyclass" where
  "type_of w v = (case v of
      PNone \<Rightarrow> Named ''NoneType''
    | PEnum _ \<Rightarrow> Named ''MiddlewareResult''
    | PStr _ \<Rightarrow> Named ''str''
    | PInt _ \<Rightarrow> Named ''int''
    | PTuple _ \<Rightarrow> Named ''tuple''
    | PClass _ \<Rightarrow> Named ''type''
    | PFunction _ \<Rightarrow> Named ''function''
    | PCoroutine _ \<Rightarrow> Named ''function''
    | PRef _ \<Rightarrow> (case lookup w v of Some ob \<Rightarrow> class_of ob | None \<Rightarrow> Named ''object''))"

section \<open>Result semantics\<close>

definition is_successful_result :: "pyval \<Rightarrow> bool" where
  "is_successful_result v = (if v = PEnum IGNORE then False else True)"

section \<open>Constructors and construction helpers\<close>

text \<open>
  \<^verbatim>\<open>MiddlewareFunction.__init__\<close>: the check is made before \<^verbatim>\<open>self.fn\<close> is set; a
  constructor that raises leaves no object behind.
\<close>

definition MiddlewareFunction_init :: "pyval \<Rightarrow> world \<Rightarrow> pyval outcome" where
  "MiddlewareFunction_init f w =
     (if \<not> iscoroutinefunction f then Raise (ValueError ''Not a coroutine'') w
      else new (MiddlewareFunction f) w)"

definition MiddlewareState_init :: "pyval \<Rightarrow> string option \<Rightarrow> world \<Rightarrow> pyval outcome" where
  "MiddlewareState_init state key w = new (MiddlewareState state key) w"

definition MiddlewareCollection_init :: "collection_class \<Rightarrow> world \<Rightarrow> pyval outcome" where
  "MiddlewareCollection_init cls w = new (MiddlewareCollection cls PNone []) w"

text \<open>
  \<^verbatim>\<open>MiddlewareCollection.add_middleware\<close>. \<open>self\<close> is a collection when the method is
  found at all.
\<close>

definition MiddlewareCollection_add_middleware :: "pyval \<Rightarrow> pyval \<Rightarrow> world \<Rightarrow> pyval outcome" where
  "MiddlewareCollection_add_middleware self mw w =
     (if \<not> isinstance_Middleware w mw then Raise (ValueError ''Not a middleware'') w
      else (case (self, lookup w self) of
          (PRef r, Some (MiddlewareCollection cls f collection)) \<Rightarrow>
            Return mw (store r (MiddlewareCollection cls f (collection @ [mw])) w)
        | _ \<Rightarrow> Raise (AttributeError ''collection'') w))"

text \<open>
  \<^verbatim>\<open>MiddlewareChain.add_middleware\<close>: the base method, then the chain takes the \<^verbatim>\<open>fn\<close>
  of its first member.
\<close>

definition MiddlewareChain_add_middleware :: "pyval \<Rightarrow> pyval \<Rightarrow> world \<Rightarrow> pyval outcome" where
  "MiddlewareChain_add_middleware self mw w =
     and_then (MiddlewareCollection_add_middleware self mw w) (\<lambda>_ w1.
       (case (self, lookup w1 self, lookup w1 mw) of
          (PRef r, Some (MiddlewareCollection cls f collection), Some m) \<Rightarrow>
            (if length collection = 1
             then Return mw (store r (MiddlewareCollection cls (fn m) collection) w1)
             else Return mw w1)
        | _ \<Rightarrow> Raise (AttributeError ''collection'') w1))"

text \<open>\<^verbatim>\<open>collection.add_middleware(mw)\<close>, by the class of \<open>collection\<close>.\<close>

definition add_middleware :: "pyval \<Rightarrow> pyval \<Rightarrow> world \<Rightarrow> pyval outcome" where
  "add_middleware self mw w =
     (case lookup w self of
        Some (MiddlewareCollection MiddlewareChain _ _) \<Rightarrow> MiddlewareChain_add_middleware self mw w
      | Some (MiddlewareCollection _ _ _) \<Rightarrow> MiddlewareCollection_add_middleware self mw w
      | _ \<Rightarrow> Raise (AttributeError ''add_middleware'') w)"

definition as_middleware :: "pyval \<Rightarrow> world \<Rightarrow> pyval outcome" where
  "as_middleware f w = MiddlewareFunction_init f w"

text \<open>The loop of \<^verbatim>\<open>collection_of\<close>.\<close>

fun collection_of_loop :: "pyval \<Rightarrow> pyval list \<Rightarrow> world \<Rightarrow> pyval outcome" where
  "collection_of_loop collection [] w = Return collection w"
| "collection_of_loop collection (mw # rest) w =
     and_then (if \<not> isinstance_Middleware w mw then as_middleware mw w else Return mw w)
       (\<lambda>mw' w1. and_then (add_middleware collection mw' w1)
          (\<lambda>_ w2. collection_of_loop collection rest w2))"

definition collection_of :: "collection_class \<Rightarrow> pyval list \<Rightarrow> world \<Rightarrow> pyval outcome" where
  "collection_of collection_class mws w =
     and_then (MiddlewareCollection_init collection_class w)
       (\<lambda>collection w1. collection_of_loop collection mws w1)"

definition chain_of :: "pyval list \<Rightarrow> world \<Rightarrow> pyval outcome" where
  "chain_of mws w = collection_of MiddlewareChain mws w"

text \<open>
  \<^verbatim>\<open>middleware(outer_middleware)\<close> returns the closure \<^verbatim>\<open>decorator\<close>, which holds the
  coerced \<^verbatim>\<open>outer_middleware\<close>.
\<close>

definition decorator :: "pyval \<Rightarrow> pyval \<Rightarrow> world \<Rightarrow> pyval outcome" where
  "decorator outer_middleware inner_middleware w =
     (if isinstance_MiddlewareChain w inner_middleware
      then and_then (MiddlewareChain_add_middleware inner_middleware outer_middleware w)
             (\<lambda>_ w1. Return inner_middleware w1)
      else chain_of [inner_middleware, outer_middleware] w)"

definition middleware :: "pyval \<Rightarrow> world \<Rightarrow> (pyval \<Rightarrow> world \<Rightarrow> pyval outcome) outcome" where
  "middleware outer_middleware w =
     and_then (if \<not> isinstance_Middleware w outer_middleware
               then as_middleware outer_middleware w else Return outer_middleware w)
       (\<lambda>outer w1. Return (decorator outer) w1)"

section \<open>State in a context\<close>

text \<open>\<^verbatim>\<open>MiddlewareState._ensure_context\<close>, \<^verbatim>\<open>set_state\<close> and \<^verbatim>\<open>get_state\<close>.\<close>

definition ensure_context :: "nat \<Rightarrow> world \<Rightarrow> world" where
  "ensure_context c w =
     (if states (ctxs w c) = None
      then w\<lparr>ctxs := (ctxs w)(c := (ctxs w c)\<lparr>states := Some []\<rparr>)\<rparr>
      else w)"

definition set_state :: "nat \<Rightarrow> pyval \<Rightarrow> world \<Rightarrow> world" where
  "set_state c state w =
     (let w1 = ensure_context c w;
          d = (case states (ctxs w1 c) of Some d \<Rightarrow> d | None \<Rightarrow> [])
      in w1\<lparr>ctxs := (ctxs w1)(c := (ctxs w1 c)\<lparr>states := Some (AList.update (type_of w1 state) state d)\<rparr>)\<rparr>)"

definition get_state :: "nat \<Rightarrow> pyclass \<Rightarrow> world \<Rightarrow> pyval \<times> world" where
  "get_state c state_type w =
     (let w1 = ensure_context c w;
          d = (case states (ctxs w1 c) of Some d \<Rightarrow> d | None \<Rightarrow> [])
      in (case map_of d state_type of Some v \<Rightarrow> v | None \<Rightarrow> PNone, w1))"

section \<open>Running middleware\<close>

fun issubclass_ContextState :: "pyclass \<Rightarrow> bool" where
  "issubclass_ContextState ContextState = True"
| "issubclass_ContextState (ContextStateSubclass _) = True"
| "issubclass_ContextState (Named _) = False"

text \<open>
  The first statement of \<^verbatim>\<open>MiddlewareState.run\<close>: a class deriving from
  \<^verbatim>\<open>ContextState\<close> is called with no argument, which creates an instance of it.
\<close>

definition resolve :: "pyval \<Rightarrow> world \<Rightarrow> pyval outcome" where
  "resolve state w =
     (case state of
        PClass k \<Rightarrow> (if issubclass_ContextState k then new (Instance k) w else Return state w)
      | _ \<Rightarrow> Return state w)"

text \<open>\<^verbatim>\<open>if self.key: kwargs[self.key] = state\<close>: \<^verbatim>\<open>None\<close> and the empty string are false.\<close>

fun with_key :: "string option \<Rightarrow> pyval \<Rightarrow> (string \<times> pyval) list \<Rightarrow> (string \<times> pyval) list" where
  "with_key None state kw = kw"
| "with_key (Some k) state kw = (if k \<noteq> [] then AList.update k state kw else kw)"

text \<open>
  \<^verbatim>\<open>next(*args, ctx=ctx, **kwargs)\<close>: Python refuses the call, before \<^verbatim>\<open>next\<close> runs,
  when \<^verbatim>\<open>kwargs\<close> has the key \<^verbatim>\<open>ctx\<close> too.
\<close>

definition call_next :: "cont \<Rightarrow> call \<Rightarrow> world \<Rightarrow> pyval outcome" where
  "call_next next c w =
     (if ''ctx'' \<in> set (map fst (kwargs c))
      then Raise (TypeError ''got multiple values for keyword argument ctx'') w
      else next c w)"

definition MiddlewareState_run :: "pyval \<Rightarrow> string option \<Rightarrow> coroutine" where
  "MiddlewareState_run self_state self_key c next w =
     and_then (resolve self_state w) (\<lambda>state w1.
       call_next next (c\<lparr>kwargs := with_key self_key state (kwargs c)\<rparr>)
         (set_state (ctx c) state w1))"

text \<open>
  \<^verbatim>\<open>MiddlewareFunction.run\<close>. The constructor lets only a coroutine function into
  \<^verbatim>\<open>self.fn\<close>.
\<close>

definition MiddlewareFunction_run :: "fenv \<Rightarrow> pyval \<Rightarrow> coroutine" where
  "MiddlewareFunction_run fenv self_fn c next w =
     (case self_fn of
        PCoroutine k \<Rightarrow> fenv k c next w
      | _ \<Rightarrow> Raise (TypeError ''not a coroutine function'') w)"

text \<open>
  The closure \<^verbatim>\<open>MiddlewareChain.run\<close> builds at each step of its loop,
  \<^verbatim>\<open>lambda *args, ctx, **kwargs: current.run(*args, ctx=ctx, next=next, **kwargs)\<close>:
  Python refuses the inner call when the closure was given a keyword \<^verbatim>\<open>next\<close>.
  The members are given as their \<^verbatim>\<open>run\<close> methods.
\<close>

definition chain_link :: "coroutine \<Rightarrow> cont \<Rightarrow> cont" where
  "chain_link current next = (\<lambda>c w.
     if ''next'' \<in> set (map fst (kwargs c))
     then Raise (TypeError ''got multiple values for keyword argument next'') w
     else current c next w)"

definition MiddlewareChain_run :: "coroutine list \<Rightarrow> coroutine" where
  "MiddlewareChain_run collection c next w =
     (foldl (\<lambda>next current. chain_link current next) next collection) c w"

text \<open>
  \<^verbatim>\<open>OneOfAll.run\<close> and \<^verbatim>\<open>AllOfAll.run\<close> walk \<^verbatim>\<open>self.collection\<close> as it is when the run
  starts: a collection's membership does not change while it runs.
\<close>

fun OneOfAll_run :: "coroutine list \<Rightarrow> coroutine" where
  "OneOfAll_run [] c next w = Return (PEnum IGNORE) w"
| "OneOfAll_run (mw # rest) c next w =
     and_then (mw c next w) (\<lambda>result w1.
       if is_successful_result result then Return result w1 else OneOfAll_run rest c next w1)"

text \<open>The list comprehension of \<^verbatim>\<open>AllOfAll.run\<close>: \<open>acc\<close> is the list built so far.\<close>

fun comprehension :: "coroutine list \<Rightarrow> call \<Rightarrow> cont \<Rightarrow> pyval list \<Rightarrow> world \<Rightarrow> pyval list outcome" where
  "comprehension [] c next acc w = Return acc w"
| "comprehension (mw # rest) c next acc w =
     and_then (mw c next w) (\<lambda>result w1. comprehension rest c next (acc @ [result]) w1)"

definition AllOfAll_run :: "coroutine list \<Rightarrow> coroutine" where
  "AllOfAll_run collection c next w =
     and_then (comprehension collection c next [] w) (\<lambda>results w1. Return (PTuple results) w1)"

text \<open>
  \<^verbatim>\<open>self.run(*args, ctx=ctx, next=next, **kwargs)\<close>, by the class of \<open>self\<close> in the
  heap at the time of the call. A collection may hold itself, so the depth of the calls
  is bounded by fuel: \<open>run n\<close> makes at most \<open>n\<close> nested calls of \<^verbatim>\<open>run\<close>.
\<close>

primrec run :: "nat \<Rightarrow> fenv \<Rightarrow> pyval \<Rightarrow> coroutine" where
  "run 0 fenv self c next w = OutOfFuel"
| "run (Suc n) fenv self c next w =
     (case lookup w self of
        Some (MiddlewareFunction f) \<Rightarrow> MiddlewareFunction_run fenv f c next w
      | Some (MiddlewareState state key) \<Rightarrow> MiddlewareState_run state key c next w
      | Some (MiddlewareCollection MiddlewareChain _ collection) \<Rightarrow>
          MiddlewareChain_run (map (run n fenv) collection) c next w
      | Some (MiddlewareCollection OneOfAll _ collection) \<Rightarrow>
          OneOfAll_run (map (run n fenv) collection) c next w
      | Some (MiddlewareCollection AllOfAll _ collection) \<Rightarrow>
          AllOfAll_run (map (run n fenv) collection) c next w
      | Some (UserMiddleware _ f) \<Rightarrow> fenv f c next w
      | _ \<Rightarrow> Raise (AttributeError ''run'') w)"

section \<open>Probes\<close>

text \<open>
  The test doubles of the spec's testable properties: a context-held ordered log, a probe
  that logs before and after it awaits \<^verbatim>\<open>next\<close> and returns what \<^verbatim>\<open>next\<close> returned, a
  terminal that logs \<open>T\<close> and returns \<open>"T"\<close>, and members that log their name and return
  a fixed value without calling \<^verbatim>\<open>next\<close>.
\<close>

definition log_event :: "nat \<Rightarrow> string \<Rightarrow> world \<Rightarrow> world" where
  "log_event c e w = w\<lparr>ctxs := (ctxs w)(c := (ctxs w c)\<lparr>log := log (ctxs w c) @ [e]\<rparr>)\<rparr>"

definition probe :: "string \<Rightarrow> coroutine" where
  "probe name c next w =
     and_then (next c (log_event (ctx c) (name @ ''-before'') w))
       (\<lambda>result w1. Return result (log_event (ctx c) (name @ ''-after'') w1))"

definition terminal :: cont where
  "terminal c w = Return (PStr ''T'') (log_event (ctx c) ''T'' w)"

definition answering :: "string \<Rightarrow> pyval \<Rightarrow> coroutine" where
  "answering name v c next w = Return v (log_event (ctx c) name w)"

definition empty_world :: world where
  "empty_world = \<lparr>heap = [], ctxs = (\<lambda>_. \<lparr>states = None, log = []\<rparr>)\<rparr>"

definition no_args :: "nat \<Rightarrow> call" where
  "no_args c = \<lparr>args = [], ctx = c, kwargs = []\<rparr>"

text \<open>Coroutines 0 and 1 are the probes \<open>A\<close> and \<open>B\<close>; 2, 3 and 4 are \<open>M1\<close>, \<open>M2\<close>, \<open>M3\<close>.\<close>

definition probes :: fenv where
  "probes k =
     (if k = 0 then probe ''A''
      else if k = 1 then probe ''B''
      else if k = 2 then answering ''M1'' (PEnum IGNORE)
      else if k = 3 then answering ''M2'' (PStr ''X'')
      else if k = 4 then answering ''M3'' (PStr ''Y'')
      else (\<lambda>c next w. next c w))"

section \<open>Members run one after the other\<close>

text \<open>
  \<open>declined ms c next w\<close> is the world left when every member of \<open>ms\<close>, run in order
  with the same \<open>c\<close> and \<open>next\<close>, each from the world the one before left, returned
  \<open>IGNORE\<close>; it is \<open>None\<close> when one of them did anything else.
\<close>

fun declined :: "coroutine list \<Rightarrow> call \<Rightarrow> cont \<Rightarrow> world \<Rightarrow> world option" where
  "declined [] c next w = Some w"
| "declined (mw # rest) c next w =
     (case mw c next w of
        Return v w1 \<Rightarrow> (if v = PEnum IGNORE then declined rest c next w1 else None)
      | _ \<Rightarrow> None)"

text \<open>
  \<open>gathered ms c next w\<close> is the list of what each member of \<open>ms\<close> returned, run in
  order with the same \<open>c\<close> and \<open>next\<close>, each from the world the one before left, with
  the last world; it is \<open>None\<close> when a member did not return.
\<close>

fun gathered :: "coroutine list \<Rightarrow> call \<Rightarrow> cont \<Rightarrow> world \<Rightarrow> (pyval list \<times> world) option" where
  "gathered [] c next w = Some ([], w)"
| "gathered (mw # rest) c next w =
     (case mw c next w of
        Return v w1 \<Rightarrow> (case gathered rest c next w1 of Some (vs, w2) \<Rightarrow> Some (v # vs, w2) | None \<Rightarrow> None)
      | _ \<Rightarrow> None)"

section \<open>Scenarios\<close>

text \<open>
  The worlds the constructors and the construction helpers build from the empty one; the
  lemmas named \<open>_built\<close> below say so.
\<close>

definition empty_chain_world :: world where
  "empty_chain_world = empty_world\<lparr>heap := [MiddlewareCollection MiddlewareChain PNone []]\<rparr>"

definition two_probes_world :: world where
  "two_probes_world = empty_world\<lparr>heap :=
     [MiddlewareCollection MiddlewareChain (PCoroutine 0) [PRef 1, PRef 2],
      MiddlewareFunction (PCoroutine 0), MiddlewareFunction (PCoroutine 1)]\<rparr>"

definition first_success_world :: world where
  "first_success_world = empty_world\<lparr>heap :=
     [MiddlewareCollection OneOfAll PNone [PRef 1, PRef 2, PRef 3],
      MiddlewareFunction (PCoroutine 2), MiddlewareFunction (PCoroutine 3),
      MiddlewareFunction (PCoroutine 4)]\<rparr>"

definition all_ignore_world :: world where
  "all_ignore_world = empty_world\<lparr>heap :=
     [MiddlewareCollection OneOfAll PNone [PRef 1, PRef 2],
      MiddlewareFunction (PCoroutine 2), MiddlewareFunction (PCoroutine 2)]\<rparr>"

definition all_results_world :: world where
  "all_results_world = empty_world\<lparr>heap :=
     [MiddlewareCollection AllOfAll PNone [PRef 1, PRef 2],
      MiddlewareFunction (PCoroutine 3), MiddlewareFunction (PCoroutine 2)]\<rparr>"

text \<open>A terminal that returns the keyword arguments it was given, as a tuple of pairs.\<close>

definition echo :: cont where
  "echo c w = Return (PTuple (map (\<lambda>(k, v). PTuple [PStr k, v]) (kwargs c))) w"

text \<open>The worlds with one state injector, built by \<^verbatim>\<open>MiddlewareState(state, key=...)\<close>.\<close>

definition injector_world :: world where
  "injector_world = empty_world\<lparr>heap :=
     [MiddlewareState (PClass (ContextStateSubclass ''Session'')) (Some ''session'')]\<rparr>"

definition ctx_key_world :: world where
  "ctx_key_world = empty_world\<lparr>heap := [MiddlewareState (PStr ''s'') (Some ''ctx'')]\<rparr>"

definition empty_key_world :: world where
  "empty_key_world = empty_world\<lparr>heap := [MiddlewareState (PStr ''s'') (Some '''')]\<rparr>"

text \<open>
  The world after \<^verbatim>\<open>@middleware(b)\<close> over \<^verbatim>\<open>async def a\<close>, with \<open>a\<close> the coroutine 0 and
  \<open>b\<close> the coroutine 1.
\<close>

definition decorated_world :: world where
  "decorated_world = empty_world\<lparr>heap :=
     [MiddlewareFunction (PCoroutine 1),
      MiddlewareCollection MiddlewareChain (PCoroutine 0) [PRef 2, PRef 0],
      MiddlewareFunction (PCoroutine 0)]\<rparr>"

section \<open>Successful results\<close>

text \<open>
  C4: for every value \<open>v\<close>, \<open>is_successful_result v\<close> holds exactly when \<open>v\<close> is not the
  \<open>IGNORE\<close> sentinel; \<open>OK\<close>, \<open>None\<close> and every data value are successful, \<open>IGNORE\<close> is not.
\<close>

theorem is_successful_result_iff:
  "is_successful_result v = (v \<noteq> PEnum IGNORE)
   \<and> is_successful_result (PEnum OK) \<and> is_successful_result PNone
   \<and> is_successful_result (PStr s) \<and> is_successful_result (PInt i)
   \<and> is_successful_result (PTuple vs) \<and> is_successful_result (PRef r)
   \<and> \<not> is_successful_result (PEnum IGNORE)"
  by (simp add: is_successful_result_def)

section \<open>The sequential chain\<close>

lemma lookup_log_event [simp]: "lookup (log_event c e w) v = lookup w v"
  by (cases v) (simp_all add: lookup_def log_event_def)

lemma empty_chain_built:
  "MiddlewareCollection_init MiddlewareChain empty_world = Return (PRef 0) empty_chain_world"
  by (simp add: MiddlewareCollection_init_def new_def empty_world_def empty_chain_world_def)

text \<open>
  C6: running a chain with no member is calling the terminal \<^verbatim>\<open>next\<close> with the given
  arguments, context and keyword arguments, in the same world, whatever the fuel.
\<close>

theorem empty_chain_is_next:
  assumes "lookup w self = Some (MiddlewareCollection MiddlewareChain f [])"
  shows "run (Suc n) fenv self c nxt w = nxt c w"
  using assms by (simp add: MiddlewareChain_run_def)

theorem empty_chain_is_next_witness:
  "MiddlewareCollection_init MiddlewareChain empty_world = Return (PRef 0) empty_chain_world
   \<and> lookup empty_chain_world (PRef 0) = Some (MiddlewareCollection MiddlewareChain PNone [])
   \<and> run (Suc 0) probes (PRef 0) (no_args 0) terminal empty_chain_world
       = Return (PStr ''T'') (log_event 0 ''T'' empty_chain_world)"
proof -
  have chain: "lookup empty_chain_world (PRef 0) = Some (MiddlewareCollection MiddlewareChain PNone [])"
    by (simp add: lookup_def empty_chain_world_def)
  have "run (Suc 0) probes (PRef 0) (no_args 0) terminal empty_chain_world
          = terminal (no_args 0) empty_chain_world"
    using empty_chain_is_next [OF chain] .
  then have "run (Suc 0) probes (PRef 0) (no_args 0) terminal empty_chain_world
          = Return (PStr ''T'') (log_event 0 ''T'' empty_chain_world)"
    by (simp add: terminal_def no_args_def)
  with empty_chain_built chain show ?thesis
    by (intro conjI)
qed

text \<open>The member added last is entered first; its \<^verbatim>\<open>next\<close> is the chain of the others.\<close>

lemma MiddlewareChain_run_snoc:
  "MiddlewareChain_run (ms @ [m]) c nxt w
     = chain_link m (\<lambda>c' w'. MiddlewareChain_run ms c' nxt w') c w"
  by (simp add: MiddlewareChain_run_def)

lemma probes_chain_general:
  assumes chain: "lookup w self = Some (MiddlewareCollection MiddlewareChain f [a, b])"
      and a: "lookup w a = Some (MiddlewareFunction (PCoroutine ka))" "fenv ka = probe ''A''"
      and b: "lookup w b = Some (MiddlewareFunction (PCoroutine kb))" "fenv kb = probe ''B''"
      and kw: "''next'' \<notin> set (map fst (kwargs c))"
      and t: "nxt c (log_event (ctx c) ''A-before'' (log_event (ctx c) ''B-before'' w)) = Return v w'"
  shows "run (Suc (Suc n)) fenv self c nxt w
           = Return v (log_event (ctx c) ''B-after'' (log_event (ctx c) ''A-after'' w'))"
  using assms
  by (simp add: MiddlewareChain_run_def chain_link_def MiddlewareFunction_run_def probe_def and_then_def)

lemma two_probes_built:
  "chain_of [PCoroutine 0, PCoroutine 1] empty_world = Return (PRef 0) two_probes_world"
  by (simp add: chain_of_def collection_of_def MiddlewareCollection_init_def new_def and_then_def
      isinstance_Middleware_def lookup_def as_middleware_def MiddlewareFunction_init_def
      add_middleware_def MiddlewareChain_add_middleware_def MiddlewareCollection_add_middleware_def
      store_def empty_world_def two_probes_world_def)

text \<open>
  C1: a chain whose members were added in the order \<open>a\<close>, \<open>b\<close>, both probes that await
  their \<^verbatim>\<open>next\<close> (the keyword arguments of a run never hold \<^verbatim>\<open>next\<close>: Python binds it
  to the parameter of that name). Its run is the fold over \<open>[a, b]\<close> from the terminal \<^verbatim>\<open>next\<close>: \<open>b\<close> is
  run first, with a \<^verbatim>\<open>next\<close> that runs \<open>a\<close>, whose \<^verbatim>\<open>next\<close> is the terminal. The terminal is
  called in the world where \<open>B-before\<close> then \<open>A-before\<close> were logged; what it returns is
  the chain's result, after \<open>A-after\<close> then \<open>B-after\<close> were logged. With the terminal that
  logs \<open>T\<close>, the log grows by \<open>[B-before, A-before, T, A-after, B-after]\<close>.
\<close>

theorem chain_enters_last_added_first:
  assumes chain: "lookup w self = Some (MiddlewareCollection MiddlewareChain f [a, b])"
      and a: "lookup w a = Some (MiddlewareFunction (PCoroutine ka))" "fenv ka = probe ''A''"
      and b: "lookup w b = Some (MiddlewareFunction (PCoroutine kb))" "fenv kb = probe ''B''"
      and kw: "''next'' \<notin> set (map fst (kwargs c))"
  shows "run (Suc n) fenv self c nxt w
           = foldl (\<lambda>next current. chain_link current next) nxt (map (run n fenv) [a, b]) c w
       \<and> run (Suc n) fenv self c nxt w = run n fenv b c (chain_link (run n fenv a) nxt) w
       \<and> (nxt c (log_event (ctx c) ''A-before'' (log_event (ctx c) ''B-before'' w)) = Return v w'
            \<longrightarrow> run (Suc (Suc n)) fenv self c nxt w
                  = Return v (log_event (ctx c) ''B-after'' (log_event (ctx c) ''A-after'' w')))
       \<and> run (Suc (Suc n)) fenv self c terminal w
           = Return (PStr ''T'')
               (w\<lparr>ctxs := (ctxs w)(ctx c := (ctxs w (ctx c))
                    \<lparr>log := log (ctxs w (ctx c)) @ [''B-before'', ''A-before'', ''T'', ''A-after'', ''B-after'']\<rparr>)\<rparr>)"
proof (intro conjI impI)
  show "run (Suc n) fenv self c nxt w
           = foldl (\<lambda>next current. chain_link current next) nxt (map (run n fenv) [a, b]) c w"
    using chain by (simp add: MiddlewareChain_run_def)
  show "run (Suc n) fenv self c nxt w = run n fenv b c (chain_link (run n fenv a) nxt) w"
    using chain kw by (simp add: MiddlewareChain_run_def chain_link_def)
  show "run (Suc (Suc n)) fenv self c nxt w
          = Return v (log_event (ctx c) ''B-after'' (log_event (ctx c) ''A-after'' w'))"
    if "nxt c (log_event (ctx c) ''A-before'' (log_event (ctx c) ''B-before'' w)) = Return v w'"
    using probes_chain_general [where nxt = nxt and v = v and w' = w', OF chain a b kw that] .
  have "terminal c (log_event (ctx c) ''A-before'' (log_event (ctx c) ''B-before'' w))
          = Return (PStr ''T'') (log_event (ctx c) ''T''
              (log_event (ctx c) ''A-before'' (log_event (ctx c) ''B-before'' w)))"
    by (simp add: terminal_def)
  from probes_chain_general [where nxt = terminal, OF chain a b kw this]
  show "run (Suc (Suc n)) fenv self c terminal w
           = Return (PStr ''T'')
               (w\<lparr>ctxs := (ctxs w)(ctx c := (ctxs w (ctx c))
                    \<lparr>log := log (ctxs w (ctx c)) @ [''B-before'', ''A-before'', ''T'', ''A-after'', ''B-after'']\<rparr>)\<rparr>)"
    by (simp add: log_event_def)
qed

theorem chain_enters_last_added_first_witness:
  "chain_of [PCoroutine 0, PCoroutine 1] empty_world = Return (PRef 0) two_probes_world
   \<and> lookup two_probes_world (PRef 0)
       = Some (MiddlewareCollection MiddlewareChain (PCoroutine 0) [PRef 1, PRef 2])
   \<and> run (Suc (Suc 0)) probes (PRef 0) (no_args 7) terminal two_probes_world
       = Return (PStr ''T'') (two_probes_world\<lparr>ctxs := (ctxs two_probes_world)(7 :=
            \<lparr>states = None, log = [''B-before'', ''A-before'', ''T'', ''A-after'', ''B-after'']\<rparr>)\<rparr>)"
proof -
  have chain: "lookup two_probes_world (PRef 0)
      = Some (MiddlewareCollection MiddlewareChain (PCoroutine 0) [PRef 1, PRef 2])"
    by (simp add: lookup_def two_probes_world_def)
  have a: "lookup two_probes_world (PRef 1) = Some (MiddlewareFunction (PCoroutine 0))"
    by (simp add: lookup_def two_probes_world_def)
  have b: "lookup two_probes_world (PRef 2) = Some (MiddlewareFunction (PCoroutine 1))"
    by (simp add: lookup_def two_probes_world_def)
  have fa: "probes 0 = probe ''A''" and fb: "probes 1 = probe ''B''"
    by (simp_all add: probes_def)
  have kw: "''next'' \<notin> set (map fst (kwargs (no_args 7)))"
    by (simp add: no_args_def)
  have "run (Suc (Suc 0)) probes (PRef 0) (no_args 7) terminal two_probes_world
       = Return (PStr ''T'') (two_probes_world\<lparr>ctxs := (ctxs two_probes_world)(ctx (no_args 7) :=
            (ctxs two_probes_world (ctx (no_args 7)))\<lparr>log := log (ctxs two_probes_world (ctx (no_args 7)))
               @ [''B-before'', ''A-before'', ''T'', ''A-after'', ''B-after'']\<rparr>)\<rparr>)"
    using chain_enters_last_added_first [where n = 0 and nxt = terminal, OF chain a fa b fb kw]
    by blast
  moreover have "ctx (no_args 7) = 7"
    by (simp add: no_args_def)
  moreover have "ctxs two_probes_world 7 = \<lparr>states = None, log = []\<rparr>"
    by (simp add: two_probes_world_def empty_world_def)
  ultimately have "run (Suc (Suc 0)) probes (PRef 0) (no_args 7) terminal two_probes_world
       = Return (PStr ''T'') (two_probes_world\<lparr>ctxs := (ctxs two_probes_world)(7 :=
            \<lparr>states = None, log = [''B-before'', ''A-before'', ''T'', ''A-after'', ''B-after'']\<rparr>)\<rparr>)"
    by simp
  with two_probes_built chain show ?thesis
    by (intro conjI)
qed

section \<open>The groups\<close>

lemma heap_log_event [simp]: "heap (log_event c e w) = heap w"
  by (simp add: log_event_def)

lemmas build_defs = collection_of_def MiddlewareCollection_init_def new_def and_then_def
      isinstance_Middleware_def lookup_def as_middleware_def MiddlewareFunction_init_def
      add_middleware_def MiddlewareChain_add_middleware_def MiddlewareCollection_add_middleware_def
      store_def empty_world_def

lemma first_success_built:
  "collection_of OneOfAll [PCoroutine 2, PCoroutine 3, PCoroutine 4] empty_world
     = Return (PRef 0) first_success_world"
  by (simp add: build_defs first_success_world_def)

lemma all_ignore_built:
  "collection_of OneOfAll [PCoroutine 2, PCoroutine 2] empty_world = Return (PRef 0) all_ignore_world"
  by (simp add: build_defs all_ignore_world_def)

lemma all_results_built:
  "collection_of AllOfAll [PCoroutine 3, PCoroutine 2] empty_world = Return (PRef 0) all_results_world"
  by (simp add: build_defs all_results_world_def)

lemmas member_defs = lookup_def MiddlewareFunction_run_def probes_def answering_def no_args_def

lemma OneOfAll_run_first_success:
  "declined pre c nxt w = Some w1 \<Longrightarrow> m c nxt w1 = Return v w2 \<Longrightarrow> v \<noteq> PEnum IGNORE
     \<Longrightarrow> OneOfAll_run (pre @ m # post) c nxt w = Return v w2"
proof (induction pre arbitrary: w)
  case Nil
  then show ?case by (simp add: and_then_def is_successful_result_def)
next
  case (Cons p pre)
  then show ?case
    by (auto simp: and_then_def is_successful_result_def split: outcome.splits if_splits)
qed

lemma OneOfAll_run_all_declined:
  "declined ms c nxt w = Some w1 \<Longrightarrow> OneOfAll_run ms c nxt w = Return (PEnum IGNORE) w1"
  by (induction ms arbitrary: w)
     (auto simp: and_then_def is_successful_result_def split: outcome.splits if_splits)

lemma OneOfAll_run_returns:
  "OneOfAll_run ms c nxt w = Return v w' \<Longrightarrow>
     (v = PEnum IGNORE \<and> declined ms c nxt w = Some w')
     \<or> (\<exists>pre m post w1. ms = pre @ m # post \<and> declined pre c nxt w = Some w1
            \<and> m c nxt w1 = Return v w' \<and> v \<noteq> PEnum IGNORE)"
proof (induction ms arbitrary: w)
  case Nil
  then show ?case by simp
next
  case (Cons m ms)
  from Cons.prems obtain r w1 where m: "m c nxt w = Return r w1"
    by (auto simp: and_then_def split: outcome.splits)
  show ?case
  proof (cases "r = PEnum IGNORE")
    case True
    with Cons.prems m have "OneOfAll_run ms c nxt w1 = Return v w'"
      by (simp add: and_then_def is_successful_result_def)
    from Cons.IH [OF this] show ?thesis
    proof
      assume "v = PEnum IGNORE \<and> declined ms c nxt w1 = Some w'"
      with m True show ?thesis by simp
    next
      assume "\<exists>pre m' post w2. ms = pre @ m' # post \<and> declined pre c nxt w1 = Some w2
            \<and> m' c nxt w2 = Return v w' \<and> v \<noteq> PEnum IGNORE"
      then obtain pre m' post w2 where *: "ms = pre @ m' # post" "declined pre c nxt w1 = Some w2"
            "m' c nxt w2 = Return v w'" "v \<noteq> PEnum IGNORE" by blast
      have "m # ms = (m # pre) @ m' # post" using * by simp
      moreover have "declined (m # pre) c nxt w = Some w2" using * m True by simp
      ultimately show ?thesis using * by blast
    qed
  next
    case False
    with Cons.prems m have "v = r" "w' = w1"
      by (simp_all add: and_then_def is_successful_result_def)
    with m False have "m # ms = [] @ m # ms \<and> declined [] c nxt w = Some w
        \<and> m c nxt w = Return v w' \<and> v \<noteq> PEnum IGNORE" by simp
    then show ?thesis by blast
  qed
qed

lemma comprehension_returns:
  "comprehension ms c nxt acc w = Return rs w'
     \<longleftrightarrow> (\<exists>vs. gathered ms c nxt w = Some (vs, w') \<and> rs = acc @ vs)"
proof (induction ms arbitrary: acc w)
  case Nil
  then show ?case by auto
next
  case (Cons m ms)
  show ?case
  proof (cases "m c nxt w")
    case (Return v w1)
    then show ?thesis
      using Cons.IH [of "acc @ [v]" w1]
      by (auto simp: and_then_def split: option.splits)
  next
    case (Raise e w1)
    then show ?thesis by (simp add: and_then_def)
  next
    case OutOfFuel
    then show ?thesis by (simp add: and_then_def)
  qed
qed

lemma gathered_length: "gathered ms c nxt w = Some (vs, w') \<Longrightarrow> length vs = length ms"
  by (induction ms arbitrary: w vs) (auto split: outcome.splits option.splits)

lemma AllOfAll_run_returns:
  "AllOfAll_run ms c nxt w = Return v w'
     \<longleftrightarrow> (\<exists>vs. gathered ms c nxt w = Some (vs, w') \<and> v = PTuple vs)"
proof -
  have "AllOfAll_run ms c nxt w = Return v w'
     \<longleftrightarrow> (\<exists>rs. comprehension ms c nxt [] w = Return rs w' \<and> v = PTuple rs)"
    by (auto simp: AllOfAll_run_def and_then_def split: outcome.splits)
  then show ?thesis by (simp add: comprehension_returns)
qed

text \<open>
  C2: a first-success group runs its members in storage order, each with the same
  arguments, context and terminal \<^verbatim>\<open>next\<close>. When the members before \<open>m\<close> all returned
  \<open>IGNORE\<close> and \<open>m\<close> returns \<open>v \<noteq> IGNORE\<close>, the group returns \<open>v\<close> in the world \<open>m\<close>
  left, whatever the members after \<open>m\<close> are: they are not run. When all members returned
  \<open>IGNORE\<close>, and when there is no member, the group returns \<open>IGNORE\<close>. Whatever the
  group returns is one of the two.
\<close>

theorem first_success_group:
  assumes group: "lookup w self = Some (MiddlewareCollection OneOfAll f coll)"
  shows "(coll = [] \<longrightarrow> run (Suc n) fenv self c nxt w = Return (PEnum IGNORE) w)
       \<and> (coll = pre @ m # post \<and> declined (map (run n fenv) pre) c nxt w = Some w1
            \<and> run n fenv m c nxt w1 = Return v w2 \<and> v \<noteq> PEnum IGNORE
          \<longrightarrow> run (Suc n) fenv self c nxt w = Return v w2)
       \<and> (declined (map (run n fenv) coll) c nxt w = Some w3
          \<longrightarrow> run (Suc n) fenv self c nxt w = Return (PEnum IGNORE) w3)
       \<and> (run (Suc n) fenv self c nxt w = Return v' w'
          \<longrightarrow> (v' = PEnum IGNORE \<and> declined (map (run n fenv) coll) c nxt w = Some w')
              \<or> (\<exists>pre m post w1. coll = pre @ m # post
                    \<and> declined (map (run n fenv) pre) c nxt w = Some w1
                    \<and> run n fenv m c nxt w1 = Return v' w' \<and> v' \<noteq> PEnum IGNORE))"
proof -
  have run: "run (Suc n) fenv self c nxt w = OneOfAll_run (map (run n fenv) coll) c nxt w"
    using group by simp
  have 1: "run (Suc n) fenv self c nxt w = Return (PEnum IGNORE) w" if "coll = []"
    unfolding run that by simp
  have 2: "run (Suc n) fenv self c nxt w = Return v w2"
    if "coll = pre @ m # post" "declined (map (run n fenv) pre) c nxt w = Some w1"
       "run n fenv m c nxt w1 = Return v w2" "v \<noteq> PEnum IGNORE"
    unfolding run that(1)
    using OneOfAll_run_first_success [where m = "run n fenv m" and post = "map (run n fenv) post",
        OF that(2) that(3) that(4)]
    by simp
  have 3: "run (Suc n) fenv self c nxt w = Return (PEnum IGNORE) w3"
    if "declined (map (run n fenv) coll) c nxt w = Some w3"
    unfolding run using OneOfAll_run_all_declined [OF that] .
  have 4: "(v' = PEnum IGNORE \<and> declined (map (run n fenv) coll) c nxt w = Some w')
              \<or> (\<exists>pre m post w1. coll = pre @ m # post
                    \<and> declined (map (run n fenv) pre) c nxt w = Some w1
                    \<and> run n fenv m c nxt w1 = Return v' w' \<and> v' \<noteq> PEnum IGNORE)"
    if "run (Suc n) fenv self c nxt w = Return v' w'"
  proof -
    from that have "OneOfAll_run (map (run n fenv) coll) c nxt w = Return v' w'"
      unfolding run .
    from OneOfAll_run_returns [OF this] show ?thesis
    proof
      assume "v' = PEnum IGNORE \<and> declined (map (run n fenv) coll) c nxt w = Some w'"
      then show ?thesis by blast
    next
      assume "\<exists>pre m post w1. map (run n fenv) coll = pre @ m # post
          \<and> declined pre c nxt w = Some w1 \<and> m c nxt w1 = Return v' w' \<and> v' \<noteq> PEnum IGNORE"
      then obtain pre' m' post' w1 where *: "map (run n fenv) coll = pre' @ m' # post'"
          "declined pre' c nxt w = Some w1" "m' c nxt w1 = Return v' w'" "v' \<noteq> PEnum IGNORE"
        by blast
      from *(1) obtain pre rest where a: "coll = pre @ rest" "pre' = map (run n fenv) pre"
          "m' # post' = map (run n fenv) rest"
        by (auto simp: map_eq_append_conv)
      from a(3) obtain m post where b: "rest = m # post" "m' = run n fenv m"
        by (cases rest) auto
      from a b * have "coll = pre @ m # post \<and> declined (map (run n fenv) pre) c nxt w = Some w1
                    \<and> run n fenv m c nxt w1 = Return v' w' \<and> v' \<noteq> PEnum IGNORE"
        by simp
      then show ?thesis by blast
    qed
  qed
  from 1 2 3 4 show ?thesis by blast
qed

theorem first_success_group_witness:
  "collection_of OneOfAll [PCoroutine 2, PCoroutine 3, PCoroutine 4] empty_world
     = Return (PRef 0) first_success_world
   \<and> run (Suc (Suc 0)) probes (PRef 0) (no_args 0) terminal first_success_world
       = Return (PStr ''X'') (log_event 0 ''M2'' (log_event 0 ''M1'' first_success_world))
   \<and> log (ctxs (log_event 0 ''M2'' (log_event 0 ''M1'' first_success_world)) 0) = [''M1'', ''M2'']
   \<and> collection_of OneOfAll [PCoroutine 2, PCoroutine 2] empty_world = Return (PRef 0) all_ignore_world
   \<and> run (Suc (Suc 0)) probes (PRef 0) (no_args 0) terminal all_ignore_world
       = Return (PEnum IGNORE) (log_event 0 ''M1'' (log_event 0 ''M1'' all_ignore_world))"
proof -
  have group: "lookup first_success_world (PRef 0)
      = Some (MiddlewareCollection OneOfAll PNone ([PRef 1] @ PRef 2 # [PRef 3]))"
    by (simp add: lookup_def first_success_world_def)
  have m1: "declined (map (run (Suc 0) probes) [PRef 1]) (no_args 0) terminal first_success_world
      = Some (log_event 0 ''M1'' first_success_world)"
    by (simp add: member_defs first_success_world_def)
  have m2: "run (Suc 0) probes (PRef 2) (no_args 0) terminal (log_event 0 ''M1'' first_success_world)
      = Return (PStr ''X'') (log_event 0 ''M2'' (log_event 0 ''M1'' first_success_world))"
    by (simp add: member_defs first_success_world_def)
  have x: "run (Suc (Suc 0)) probes (PRef 0) (no_args 0) terminal first_success_world
       = Return (PStr ''X'') (log_event 0 ''M2'' (log_event 0 ''M1'' first_success_world))"
    using first_success_group [where n = "Suc 0" and pre = "[PRef 1]" and m = "PRef 2"
        and post = "[PRef 3]", OF group] m1 m2
    by blast
  have l: "log (ctxs (log_event 0 ''M2'' (log_event 0 ''M1'' first_success_world)) 0) = [''M1'', ''M2'']"
    by (simp add: log_event_def first_success_world_def empty_world_def)
  have group': "lookup all_ignore_world (PRef 0)
      = Some (MiddlewareCollection OneOfAll PNone [PRef 1, PRef 2])"
    by (simp add: lookup_def all_ignore_world_def)
  have d: "declined (map (run (Suc 0) probes) [PRef 1, PRef 2]) (no_args 0) terminal all_ignore_world
      = Some (log_event 0 ''M1'' (log_event 0 ''M1'' all_ignore_world))"
    by (simp add: member_defs all_ignore_world_def)
  have i: "run (Suc (Suc 0)) probes (PRef 0) (no_args 0) terminal all_ignore_world
       = Return (PEnum IGNORE) (log_event 0 ''M1'' (log_event 0 ''M1'' all_ignore_world))"
    using first_success_group [where n = "Suc 0", OF group'] d
    by blast
  from first_success_built x l all_ignore_built i show ?thesis
    by (intro conjI)
qed

text \<open>
  C3: an all-results group runs every member in storage order, each with the same
  arguments, context and terminal \<^verbatim>\<open>next\<close>, and returns the tuple of what they returned,
  \<open>IGNORE\<close> included, one entry per member; with no member the tuple is empty. Whatever
  the group returns is such a tuple, and is a successful result.
\<close>

theorem all_results_group:
  assumes group: "lookup w self = Some (MiddlewareCollection AllOfAll f coll)"
  shows "(coll = [] \<longrightarrow> run (Suc n) fenv self c nxt w = Return (PTuple []) w)
       \<and> (gathered (map (run n fenv) coll) c nxt w = Some (vs, w')
          \<longrightarrow> run (Suc n) fenv self c nxt w = Return (PTuple vs) w' \<and> length vs = length coll)
       \<and> (run (Suc n) fenv self c nxt w = Return v w''
          \<longrightarrow> is_successful_result v
              \<and> (\<exists>rs. v = PTuple rs \<and> length rs = length coll
                    \<and> gathered (map (run n fenv) coll) c nxt w = Some (rs, w'')))"
proof -
  have run: "run (Suc n) fenv self c nxt w = AllOfAll_run (map (run n fenv) coll) c nxt w"
    using group by simp
  have 1: "run (Suc n) fenv self c nxt w = Return (PTuple []) w" if "coll = []"
    unfolding run that by (simp add: AllOfAll_run_def and_then_def)
  have 2: "run (Suc n) fenv self c nxt w = Return (PTuple vs) w' \<and> length vs = length coll"
    if "gathered (map (run n fenv) coll) c nxt w = Some (vs, w')"
    unfolding run using that gathered_length [OF that] by (simp add: AllOfAll_run_returns)
  have 3: "is_successful_result v
              \<and> (\<exists>rs. v = PTuple rs \<and> length rs = length coll
                    \<and> gathered (map (run n fenv) coll) c nxt w = Some (rs, w''))"
    if "run (Suc n) fenv self c nxt w = Return v w''"
  proof -
    from that have "AllOfAll_run (map (run n fenv) coll) c nxt w = Return v w''"
      unfolding run .
    then obtain rs where *: "gathered (map (run n fenv) coll) c nxt w = Some (rs, w'')"
        "v = PTuple rs"
      by (auto simp: AllOfAll_run_returns)
    with gathered_length [OF *(1)] show ?thesis
      by (simp add: is_successful_result_def)
  qed
  from 1 2 3 show ?thesis by blast
qed

theorem all_results_group_witness:
  "collection_of AllOfAll [PCoroutine 3, PCoroutine 2] empty_world = Return (PRef 0) all_results_world
   \<and> run (Suc (Suc 0)) probes (PRef 0) (no_args 0) terminal all_results_world
       = Return (PTuple [PStr ''X'', PEnum IGNORE])
           (log_event 0 ''M1'' (log_event 0 ''M2'' all_results_world))
   \<and> is_successful_result (PTuple [PStr ''X'', PEnum IGNORE])"
proof -
  have group: "lookup all_results_world (PRef 0)
      = Some (MiddlewareCollection AllOfAll PNone [PRef 1, PRef 2])"
    by (simp add: lookup_def all_results_world_def)
  have g: "gathered (map (run (Suc 0) probes) [PRef 1, PRef 2]) (no_args 0) terminal all_results_world
      = Some ([PStr ''X'', PEnum IGNORE], log_event 0 ''M1'' (log_event 0 ''M2'' all_results_world))"
    by (simp add: member_defs all_results_world_def)
  have x: "run (Suc (Suc 0)) probes (PRef 0) (no_args 0) terminal all_results_world
       = Return (PTuple [PStr ''X'', PEnum IGNORE])
           (log_event 0 ''M1'' (log_event 0 ''M2'' all_results_world))"
    using all_results_group [where n = "Suc 0", OF group] g
    by blast
  then have "is_successful_result (PTuple [PStr ''X'', PEnum IGNORE])"
    using all_results_group [where n = "Suc 0", OF group] by blast
  with all_results_built x show ?thesis
    by (intro conjI)
qed

section \<open>The state injector\<close>

lemma lookup_ctxs_update [simp]: "lookup (w\<lparr>ctxs := x\<rparr>) v = lookup w v"
  by (cases v) (simp_all add: lookup_def)

lemma type_of_ctxs_update [simp]: "type_of (w\<lparr>ctxs := x\<rparr>) v = type_of w v"
  by (cases v) (simp_all add: type_of_def)

lemma lookup_set_state [simp]: "lookup (set_state c v w) r = lookup w r"
  by (cases r) (simp_all add: lookup_def set_state_def ensure_context_def Let_def)

lemma heap_set_state [simp]: "heap (set_state c v w) = heap w"
  by (simp add: set_state_def ensure_context_def Let_def)

lemma type_of_ensure_context [simp]: "type_of (ensure_context c w) v = type_of w v"
  by (simp add: ensure_context_def)

lemma get_state_set_state:
  "fst (get_state c (type_of w v) (set_state c v w)) = v"
  by (simp add: get_state_def set_state_def ensure_context_def Let_def update_conv)

lemma get_state_set_state_other:
  "t \<noteq> type_of w v \<Longrightarrow> fst (get_state c t (set_state c v w)) = fst (get_state c t w)"
  by (simp add: get_state_def set_state_def ensure_context_def Let_def update_conv split: option.splits)

lemma get_state_set_state_elsewhere:
  "c' \<noteq> c \<Longrightarrow> fst (get_state c' t (set_state c v w)) = fst (get_state c' t w)"
  by (simp add: get_state_def set_state_def ensure_context_def Let_def)

lemma resolve_per_run:
  "issubclass_ContextState k \<Longrightarrow>
     resolve (PClass k) w = Return (PRef (length (heap w))) (w\<lparr>heap := heap w @ [Instance k]\<rparr>)"
  by (simp add: resolve_def new_def)

lemma resolve_as_is:
  "(\<And>k. st = PClass k \<Longrightarrow> \<not> issubclass_ContextState k) \<Longrightarrow> resolve st w = Return st w"
  by (cases st) (simp_all add: resolve_def)

lemma with_key_no_ctx:
  "key \<noteq> Some ''ctx'' \<Longrightarrow> ''ctx'' \<notin> set (map fst kw) \<Longrightarrow> ''ctx'' \<notin> set (map fst (with_key key v kw))"
  by (cases key) (auto simp: dom_update)

lemma MiddlewareState_run_forwards:
  assumes "key \<noteq> Some ''ctx''" and "''ctx'' \<notin> set (map fst (kwargs c))"
      and "resolve st w = Return state w1"
  shows "MiddlewareState_run st key c nxt w
           = nxt (c\<lparr>kwargs := with_key key state (kwargs c)\<rparr>) (set_state (ctx c) state w1)"
  using assms with_key_no_ctx [OF assms(1) assms(2), of state]
  by (simp add: MiddlewareState_run_def and_then_def call_next_def)

lemma injector_built:
  "MiddlewareState_init (PClass (ContextStateSubclass ''Session'')) (Some ''session'') empty_world
     = Return (PRef 0) injector_world"
  by (simp add: MiddlewareState_init_def new_def empty_world_def injector_world_def)

lemma ctx_key_built:
  "MiddlewareState_init (PStr ''s'') (Some ''ctx'') empty_world = Return (PRef 0) ctx_key_world"
  by (simp add: MiddlewareState_init_def new_def empty_world_def ctx_key_world_def)

lemma empty_key_built:
  "MiddlewareState_init (PStr ''s'') (Some '''') empty_world = Return (PRef 0) empty_key_world"
  by (simp add: MiddlewareState_init_def new_def empty_world_def empty_key_world_def)

text \<open>
  C5, for a key other than \<^verbatim>\<open>"ctx"\<close> (the keyword arguments of a run never hold
  \<^verbatim>\<open>ctx\<close>: Python binds it to the parameter of that name). When the configured state
  is a class deriving from \<^verbatim>\<open>ContextState\<close>, the state is a new instance of it, an
  object the world did not have before the run; otherwise it is the configured value.
  \<^verbatim>\<open>next\<close> is called with the same arguments and context, with the keyword arguments
  updated at the key when the key is a non-empty string and as they were when there is
  no key, in the world where the state is stored in the context under its type; what
  \<^verbatim>\<open>next\<close> does is what the run does. Reading the store at that type gives the state,
  and the entries of other types are as before.
\<close>

theorem state_injector_run:
  assumes obj: "lookup w self = Some (MiddlewareState st key)"
      and key: "key \<noteq> Some ''ctx''"
      and wf: "''ctx'' \<notin> set (map fst (kwargs c))"
  shows "(st = PClass k \<and> issubclass_ContextState k \<longrightarrow>
            run (Suc n) fenv self c nxt w
              = nxt (c\<lparr>kwargs := with_key key (PRef (length (heap w))) (kwargs c)\<rparr>)
                  (set_state (ctx c) (PRef (length (heap w))) (w\<lparr>heap := heap w @ [Instance k]\<rparr>))
            \<and> lookup w (PRef (length (heap w))) = None
            \<and> lookup (w\<lparr>heap := heap w @ [Instance k]\<rparr>) (PRef (length (heap w))) = Some (Instance k))
       \<and> ((\<forall>k'. st = PClass k' \<longrightarrow> \<not> issubclass_ContextState k') \<longrightarrow>
            run (Suc n) fenv self c nxt w
              = nxt (c\<lparr>kwargs := with_key key st (kwargs c)\<rparr>) (set_state (ctx c) st w))
       \<and> (key = Some name \<and> name \<noteq> [] \<longrightarrow>
            with_key key v kw = AList.update name v kw \<and> map_of (with_key key v kw) name = Some v)
       \<and> (key = None \<longrightarrow> with_key key v kw = kw)
       \<and> fst (get_state cx (type_of w' v) (set_state cx v w')) = v
       \<and> (t \<noteq> type_of w' v \<longrightarrow> fst (get_state cx t (set_state cx v w')) = fst (get_state cx t w'))"
proof -
  have run: "run (Suc n) fenv self c nxt w = MiddlewareState_run st key c nxt w"
    using obj by simp
  have 1: "run (Suc n) fenv self c nxt w
              = nxt (c\<lparr>kwargs := with_key key (PRef (length (heap w))) (kwargs c)\<rparr>)
                  (set_state (ctx c) (PRef (length (heap w))) (w\<lparr>heap := heap w @ [Instance k]\<rparr>))"
    if "st = PClass k" "issubclass_ContextState k"
    unfolding run using MiddlewareState_run_forwards [OF key wf] resolve_per_run [OF that(2)] that(1)
    by simp
  have 2: "lookup w (PRef (length (heap w))) = None"
    by (simp add: lookup_def)
  have 3: "lookup (w\<lparr>heap := heap w @ [Instance k]\<rparr>) (PRef (length (heap w))) = Some (Instance k)"
    by (simp add: lookup_def)
  have 4: "run (Suc n) fenv self c nxt w
              = nxt (c\<lparr>kwargs := with_key key st (kwargs c)\<rparr>) (set_state (ctx c) st w)"
    if "\<forall>k'. st = PClass k' \<longrightarrow> \<not> issubclass_ContextState k'"
    unfolding run using MiddlewareState_run_forwards [OF key wf] resolve_as_is [of st w] that
    by simp
  have 5: "with_key key v kw = AList.update name v kw \<and> map_of (with_key key v kw) name = Some v"
    if "key = Some name" "name \<noteq> []"
    using that by (simp add: update_conv)
  have 6: "with_key key v kw = kw" if "key = None"
    using that by simp
  from 1 2 3 4 5 6 get_state_set_state get_state_set_state_other show ?thesis
    by blast
qed

theorem state_injector_run_witness:
  "MiddlewareState_init (PClass (ContextStateSubclass ''Session'')) (Some ''session'') empty_world
     = Return (PRef 0) injector_world
   \<and> run (Suc 0) probes (PRef 0) (no_args 0) echo injector_world
       = Return (PTuple [PTuple [PStr ''session'', PRef 1]])
           (set_state 0 (PRef 1)
              (injector_world\<lparr>heap := heap injector_world @ [Instance (ContextStateSubclass ''Session'')]\<rparr>))
   \<and> states (ctxs (set_state 0 (PRef 1)
              (injector_world\<lparr>heap := heap injector_world @ [Instance (ContextStateSubclass ''Session'')]\<rparr>)) 0)
       = Some [(ContextStateSubclass ''Session'', PRef 1)]"
proof -
  have obj: "lookup injector_world (PRef 0)
      = Some (MiddlewareState (PClass (ContextStateSubclass ''Session'')) (Some ''session''))"
    by (simp add: lookup_def injector_world_def)
  have key: "Some ''session'' \<noteq> Some ''ctx''"
    by simp
  have wf: "''ctx'' \<notin> set (map fst (kwargs (no_args 0)))"
    by (simp add: no_args_def)
  have "run (Suc 0) probes (PRef 0) (no_args 0) echo injector_world
       = echo ((no_args 0)\<lparr>kwargs := with_key (Some ''session'') (PRef (length (heap injector_world)))
                  (kwargs (no_args 0))\<rparr>)
           (set_state (ctx (no_args 0)) (PRef (length (heap injector_world)))
              (injector_world\<lparr>heap := heap injector_world @ [Instance (ContextStateSubclass ''Session'')]\<rparr>))"
    using state_injector_run [where n = 0 and nxt = echo and k = "ContextStateSubclass ''Session''",
        OF obj key wf]
    by simp
  moreover have "length (heap injector_world) = 1"
    by (simp add: injector_world_def)
  ultimately have r: "run (Suc 0) probes (PRef 0) (no_args 0) echo injector_world
       = Return (PTuple [PTuple [PStr ''session'', PRef 1]])
           (set_state 0 (PRef 1)
              (injector_world\<lparr>heap := heap injector_world @ [Instance (ContextStateSubclass ''Session'')]\<rparr>))"
    by (simp add: echo_def no_args_def)
  have s: "states (ctxs (set_state 0 (PRef 1)
              (injector_world\<lparr>heap := heap injector_world @ [Instance (ContextStateSubclass ''Session'')]\<rparr>)) 0)
       = Some [(ContextStateSubclass ''Session'', PRef 1)]"
    by (simp add: set_state_def ensure_context_def Let_def type_of_def lookup_def injector_world_def
        empty_world_def)
  from injector_built r s show ?thesis
    by (intro conjI)
qed

text \<open>
  The claim as stated fails for the key \<^verbatim>\<open>"ctx"\<close>: the call of \<^verbatim>\<open>next\<close> has the keyword
  \<^verbatim>\<open>ctx\<close> twice, so it raises after the state was stored, and \<^verbatim>\<open>next\<close> is not run.
\<close>

theorem state_injector_ctx_key_raises:
  "MiddlewareState_init (PStr ''s'') (Some ''ctx'') empty_world = Return (PRef 0) ctx_key_world
   \<and> run (Suc 0) probes (PRef 0) (no_args 0) terminal ctx_key_world
       = Raise (TypeError ''got multiple values for keyword argument ctx'')
           (set_state 0 (PStr ''s'') ctx_key_world)
   \<and> \<not> (\<exists>c w. run (Suc 0) probes (PRef 0) (no_args 0) terminal ctx_key_world = terminal c w)"
proof -
  have r: "run (Suc 0) probes (PRef 0) (no_args 0) terminal ctx_key_world
       = Raise (TypeError ''got multiple values for keyword argument ctx'')
           (set_state 0 (PStr ''s'') ctx_key_world)"
    by (simp add: lookup_def ctx_key_world_def MiddlewareState_run_def resolve_def and_then_def
        call_next_def no_args_def)
  then have "\<not> (\<exists>c w. run (Suc 0) probes (PRef 0) (no_args 0) terminal ctx_key_world = terminal c w)"
    by (simp add: terminal_def)
  with ctx_key_built r show ?thesis
    by (intro conjI)
qed

text \<open>
  C10: a state injector whose key is the empty string runs as one with no key. \<^verbatim>\<open>next\<close>
  is called with the keyword arguments as they were, in the world where the state is
  stored in the context under its type.
\<close>

theorem empty_key_is_no_key:
  assumes obj: "lookup w self = Some (MiddlewareState st (Some []))"
  shows "run (Suc n) fenv self c nxt w = MiddlewareState_run st None c nxt w
       \<and> (''ctx'' \<notin> set (map fst (kwargs c)) \<and> resolve st w = Return state w1 \<longrightarrow>
            run (Suc n) fenv self c nxt w = nxt c (set_state (ctx c) state w1)
            \<and> fst (get_state (ctx c) (type_of w1 state) (set_state (ctx c) state w1)) = state)"
proof -
  have run: "run (Suc n) fenv self c nxt w = MiddlewareState_run st (Some []) c nxt w"
    using obj by simp
  have 1: "MiddlewareState_run st (Some []) c nxt w = MiddlewareState_run st None c nxt w"
    by (simp add: MiddlewareState_run_def)
  have 2: "run (Suc n) fenv self c nxt w = nxt c (set_state (ctx c) state w1)"
    if "''ctx'' \<notin> set (map fst (kwargs c))" "resolve st w = Return state w1"
    unfolding run using MiddlewareState_run_forwards [of "Some []" c st w state w1 nxt] that
    by simp
  from run 1 2 get_state_set_state show ?thesis
    by simp
qed

theorem empty_key_is_no_key_witness:
  "MiddlewareState_init (PStr ''s'') (Some '''') empty_world = Return (PRef 0) empty_key_world
   \<and> run (Suc 0) probes (PRef 0) (no_args 0) echo empty_key_world
       = Return (PTuple []) (set_state 0 (PStr ''s'') empty_key_world)
   \<and> states (ctxs (set_state 0 (PStr ''s'') empty_key_world) 0) = Some [(Named ''str'', PStr ''s'')]"
proof -
  have obj: "lookup empty_key_world (PRef 0) = Some (MiddlewareState (PStr ''s'') (Some []))"
    by (simp add: lookup_def empty_key_world_def)
  have wf: "''ctx'' \<notin> set (map fst (kwargs (no_args 0)))"
    by (simp add: no_args_def)
  have res: "resolve (PStr ''s'') empty_key_world = Return (PStr ''s'') empty_key_world"
    by (simp add: resolve_def)
  have "run (Suc 0) probes (PRef 0) (no_args 0) echo empty_key_world
       = echo (no_args 0) (set_state (ctx (no_args 0)) (PStr ''s'') empty_key_world)"
    using empty_key_is_no_key [where n = 0 and nxt = echo, OF obj] wf res
    by blast
  then have r: "run (Suc 0) probes (PRef 0) (no_args 0) echo empty_key_world
       = Return (PTuple []) (set_state 0 (PStr ''s'') empty_key_world)"
    by (simp add: echo_def no_args_def)
  have s: "states (ctxs (set_state 0 (PStr ''s'') empty_key_world) 0) = Some [(Named ''str'', PStr ''s'')]"
    by (simp add: set_state_def ensure_context_def Let_def type_of_def empty_key_world_def empty_world_def)
  from empty_key_built r s show ?thesis
    by (intro conjI)
qed

section \<open>Construction\<close>

lemma lookup_new:
  "lookup (w\<lparr>heap := heap w @ [ob]\<rparr>) v
     = (if v = PRef (length (heap w)) then Some ob else lookup w v)"
  by (cases v) (auto simp: lookup_def nth_append)

lemma lookup_store:
  "lookup (store r ob w) v = (if v = PRef r \<and> r < length (heap w) then Some ob else lookup w v)"
  by (cases v) (auto simp: lookup_def store_def)

lemma lookup_fresh [simp]: "lookup w (PRef (length (heap w))) = None"
  by (simp add: lookup_def)

lemma lookup_Some_PRef: "lookup w v = Some ob \<Longrightarrow> \<exists>r. v = PRef r \<and> r < length (heap w)"
  by (cases v) (auto simp: lookup_def split: if_splits)

lemma heap_store [simp]: "length (heap (store r ob w)) = length (heap w)"
  by (simp add: store_def)

lemma store_store [simp]: "store r a (store r b w) = store r a w"
  by (simp add: store_def)

lemma iscoroutinefunction_not_Middleware:
  "iscoroutinefunction f \<Longrightarrow> \<not> isinstance_Middleware w f"
  by (cases f) (simp_all add: isinstance_Middleware_def lookup_def)

lemma as_middleware_coroutine:
  "iscoroutinefunction f \<Longrightarrow>
     as_middleware f w = Return (PRef (length (heap w))) (w\<lparr>heap := heap w @ [MiddlewareFunction f]\<rparr>)"
  by (simp add: as_middleware_def MiddlewareFunction_init_def new_def)

lemma as_middleware_other:
  "\<not> iscoroutinefunction f \<Longrightarrow> as_middleware f w = Raise (ValueError ''Not a coroutine'') w"
  by (simp add: as_middleware_def MiddlewareFunction_init_def)

text \<open>
  C7, as the code has it: \<^verbatim>\<open>as_middleware\<close> makes no test for a middleware and keeps no
  record of what it wrapped. Given a coroutine function it returns a new
  \<^verbatim>\<open>MiddlewareFunction\<close> holding it, an object the world did not have; given anything
  else it raises \<^verbatim>\<open>ValueError\<close> and the world is as before. Two calls on the same
  function give two different objects, both holding the function.
\<close>

theorem as_middleware_wraps:
  "(iscoroutinefunction f \<longrightarrow>
      as_middleware f w = Return (PRef (length (heap w))) (w\<lparr>heap := heap w @ [MiddlewareFunction f]\<rparr>)
      \<and> lookup w (PRef (length (heap w))) = None)
   \<and> (\<not> iscoroutinefunction f \<longrightarrow> as_middleware f w = Raise (ValueError ''Not a coroutine'') w)
   \<and> (as_middleware f w = Return u1 w1 \<and> as_middleware f w1 = Return u2 w2 \<longrightarrow>
        u1 \<noteq> u2 \<and> lookup w2 u1 = Some (MiddlewareFunction f)
        \<and> lookup w2 u2 = Some (MiddlewareFunction f))"
proof (intro conjI impI)
  assume "iscoroutinefunction f"
  then show "as_middleware f w
      = Return (PRef (length (heap w))) (w\<lparr>heap := heap w @ [MiddlewareFunction f]\<rparr>)"
    by (rule as_middleware_coroutine)
next
  show "lookup w (PRef (length (heap w))) = None"
    by simp
next
  assume "\<not> iscoroutinefunction f"
  then show "as_middleware f w = Raise (ValueError ''Not a coroutine'') w"
    by (rule as_middleware_other)
next
  assume two: "as_middleware f w = Return u1 w1 \<and> as_middleware f w1 = Return u2 w2"
  have c: "iscoroutinefunction f"
  proof (rule ccontr)
    assume "\<not> iscoroutinefunction f"
    from as_middleware_other [OF this, of w] two show False by simp
  qed
  from two as_middleware_coroutine [OF c, of w] as_middleware_coroutine [OF c, of w1]
  have *: "u1 = PRef (length (heap w))" "w1 = w\<lparr>heap := heap w @ [MiddlewareFunction f]\<rparr>"
    "u2 = PRef (length (heap w1))" "w2 = w1\<lparr>heap := heap w1 @ [MiddlewareFunction f]\<rparr>"
    by simp_all
  from * show "u1 \<noteq> u2"
    by simp
  from * show "lookup w2 u1 = Some (MiddlewareFunction f)"
    by (simp add: lookup_def nth_append)
  from * show "lookup w2 u2 = Some (MiddlewareFunction f)"
    by (simp add: lookup_def nth_append)
qed

theorem as_middleware_wraps_witness:
  "iscoroutinefunction (PCoroutine 0)
   \<and> as_middleware (PCoroutine 0) empty_world
       = Return (PRef 0) (empty_world\<lparr>heap := [MiddlewareFunction (PCoroutine 0)]\<rparr>)
   \<and> as_middleware (PCoroutine 0) (empty_world\<lparr>heap := [MiddlewareFunction (PCoroutine 0)]\<rparr>)
       = Return (PRef 1) (empty_world\<lparr>heap := [MiddlewareFunction (PCoroutine 0), MiddlewareFunction (PCoroutine 0)]\<rparr>)
   \<and> PRef 0 \<noteq> PRef 1"
proof -
  have c: "iscoroutinefunction (PCoroutine 0)"
    by simp
  have h: "heap empty_world = []"
    by (simp add: empty_world_def)
  have 1: "as_middleware (PCoroutine 0) empty_world
       = Return (PRef 0) (empty_world\<lparr>heap := [MiddlewareFunction (PCoroutine 0)]\<rparr>)"
    using as_middleware_wraps [of "PCoroutine 0" empty_world] c h by simp
  have 2: "as_middleware (PCoroutine 0) (empty_world\<lparr>heap := [MiddlewareFunction (PCoroutine 0)]\<rparr>)
       = Return (PRef 1) (empty_world\<lparr>heap := [MiddlewareFunction (PCoroutine 0), MiddlewareFunction (PCoroutine 0)]\<rparr>)"
    using as_middleware_wraps [of "PCoroutine 0" "empty_world\<lparr>heap := [MiddlewareFunction (PCoroutine 0)]\<rparr>"] c
    by simp
  have "PRef 0 \<noteq> PRef 1"
    using as_middleware_wraps [of "PCoroutine 0" empty_world "PRef 0"
        "empty_world\<lparr>heap := [MiddlewareFunction (PCoroutine 0)]\<rparr>" "PRef 1"
        "empty_world\<lparr>heap := [MiddlewareFunction (PCoroutine 0), MiddlewareFunction (PCoroutine 0)]\<rparr>"] 1 2
    by blast
  with c 1 2 show ?thesis
    by (intro conjI)
qed

text \<open>
  The claim as stated fails: \<^verbatim>\<open>as_middleware\<close> of a function that is not a coroutine
  function raises, and so does \<^verbatim>\<open>as_middleware\<close> of a middleware, which is an object and
  not a coroutine function.
\<close>

theorem as_middleware_can_raise:
  "as_middleware (PFunction 0) empty_world = Raise (ValueError ''Not a coroutine'') empty_world
   \<and> \<not> (\<exists>u w. as_middleware (PFunction 0) empty_world = Return u w)
   \<and> isinstance_Middleware two_probes_world (PRef 1)
   \<and> as_middleware (PRef 1) two_probes_world = Raise (ValueError ''Not a coroutine'') two_probes_world"
  by (simp add: as_middleware_def MiddlewareFunction_init_def isinstance_Middleware_def lookup_def
      two_probes_world_def)

lemma MiddlewareCollection_add_middleware_ok:
  assumes "lookup w self = Some (MiddlewareCollection cls g coll)" and "isinstance_Middleware w mw"
  shows "\<exists>r. self = PRef r \<and> r < length (heap w)
     \<and> MiddlewareCollection_add_middleware self mw w
       = Return mw (store r (MiddlewareCollection cls g (coll @ [mw])) w)"
proof -
  from lookup_Some_PRef [OF assms(1)] obtain r where r: "self = PRef r" "r < length (heap w)"
    by blast
  with assms have "MiddlewareCollection_add_middleware self mw w
       = Return mw (store r (MiddlewareCollection cls g (coll @ [mw])) w)"
    by (simp add: MiddlewareCollection_add_middleware_def)
  with r show ?thesis
    by blast
qed

lemma MiddlewareCollection_add_middleware_not:
  "\<not> isinstance_Middleware w mw \<Longrightarrow>
     MiddlewareCollection_add_middleware self mw w = Raise (ValueError ''Not a middleware'') w"
  by (simp add: MiddlewareCollection_add_middleware_def)

lemma MiddlewareChain_add_middleware_not:
  "\<not> isinstance_Middleware w mw \<Longrightarrow>
     MiddlewareChain_add_middleware self mw w = Raise (ValueError ''Not a middleware'') w"
  by (simp add: MiddlewareChain_add_middleware_def MiddlewareCollection_add_middleware_not and_then_def)

lemma MiddlewareChain_add_middleware_ok:
  assumes self: "lookup w self = Some (MiddlewareCollection cls g coll)"
      and mw: "lookup w mw = Some m" and m: "is_Middleware m"
  shows "\<exists>r. self = PRef r \<and> r < length (heap w)
     \<and> MiddlewareChain_add_middleware self mw w
       = Return mw (store r (MiddlewareCollection cls (if coll = [] then fn m else g) (coll @ [mw])) w)"
proof -
  have inst: "isinstance_Middleware w mw"
    using mw m by (simp add: isinstance_Middleware_def)
  from MiddlewareCollection_add_middleware_ok [OF self inst] obtain r where r:
    "self = PRef r" "r < length (heap w)"
    "MiddlewareCollection_add_middleware self mw w
       = Return mw (store r (MiddlewareCollection cls g (coll @ [mw])) w)"
    by blast
  define w1 where "w1 = store r (MiddlewareCollection cls g (coll @ [mw])) w"
  have self': "lookup w1 (PRef r) = Some (MiddlewareCollection cls g (coll @ [mw]))"
    using r by (simp add: w1_def lookup_store)
  have "\<exists>m'. lookup w1 mw = Some m' \<and> (coll = [] \<longrightarrow> fn m' = fn m)"
  proof (cases "mw = PRef r")
    case True
    with self r mw have "m = MiddlewareCollection cls g coll" by simp
    with True self' show ?thesis by simp
  next
    case False
    with mw show ?thesis by (simp add: w1_def lookup_store)
  qed
  then obtain m' where m': "lookup w1 mw = Some m'" "coll = [] \<longrightarrow> fn m' = fn m"
    by blast
  have step: "MiddlewareChain_add_middleware self mw w
       = (if length (coll @ [mw]) = 1
          then Return mw (store r (MiddlewareCollection cls (fn m') (coll @ [mw])) w1)
          else Return mw w1)"
    using r self' m' by (simp add: MiddlewareChain_add_middleware_def and_then_def w1_def)
  have "MiddlewareChain_add_middleware self mw w
       = Return mw (store r (MiddlewareCollection cls (if coll = [] then fn m else g) (coll @ [mw])) w)"
  proof (cases "coll = []")
    case True
    with step m' show ?thesis by (simp add: w1_def)
  next
    case False
    with step show ?thesis by (simp add: w1_def)
  qed
  with r show ?thesis
    by blast
qed

lemma add_middleware_ok:
  assumes self: "lookup w self = Some (MiddlewareCollection cls g coll)"
      and mw: "lookup w mw = Some m" and m: "is_Middleware m"
  shows "\<exists>r. self = PRef r \<and> r < length (heap w)
     \<and> add_middleware self mw w
       = Return mw (store r (MiddlewareCollection cls
            (if cls = MiddlewareChain \<and> coll = [] then fn m else g) (coll @ [mw])) w)"
proof (cases "cls = MiddlewareChain")
  case True
  with self have "add_middleware self mw w = MiddlewareChain_add_middleware self mw w"
    by (simp add: add_middleware_def)
  with MiddlewareChain_add_middleware_ok [OF self mw m] True show ?thesis
    by simp
next
  case False
  have inst: "isinstance_Middleware w mw"
    using mw m by (simp add: isinstance_Middleware_def)
  from False self have "add_middleware self mw w = MiddlewareCollection_add_middleware self mw w"
    by (cases cls) (simp_all add: add_middleware_def)
  with MiddlewareCollection_add_middleware_ok [OF self inst] False show ?thesis
    by simp
qed

lemma add_middleware_not:
  assumes self: "lookup w self = Some (MiddlewareCollection cls g coll)"
      and mw: "\<not> isinstance_Middleware w mw"
  shows "add_middleware self mw w = Raise (ValueError ''Not a middleware'') w"
  using self MiddlewareChain_add_middleware_not [OF mw] MiddlewareCollection_add_middleware_not [OF mw]
  by (cases cls) (simp_all add: add_middleware_def)

lemma lookup_store_other: "v \<noteq> PRef r \<Longrightarrow> lookup (store r ob w) v = lookup w v"
  by (simp add: lookup_store)

lemma lookup_store_same: "r < length (heap w) \<Longrightarrow> lookup (store r ob w) (PRef r) = Some ob"
  by (simp add: lookup_store)

lemma isinstance_Middleware_lookup:
  "isinstance_Middleware w v \<longleftrightarrow> (\<exists>m. lookup w v = Some m \<and> is_Middleware m)"
  by (cases "lookup w v") (simp_all add: isinstance_Middleware_def)

text \<open>
  C8: \<^verbatim>\<open>MiddlewareFunction(f)\<close> raises exactly when \<open>f\<close> is not a coroutine function,
  and what it raises is \<^verbatim>\<open>ValueError\<close>. For a collection \<open>self\<close>, \<^verbatim>\<open>add_middleware\<close>
  (the method of \<^verbatim>\<open>MiddlewareCollection\<close>, and the method the class of \<open>self\<close> has) raises
  exactly when the value is not a middleware, and what it raises is \<^verbatim>\<open>ValueError\<close>, the
  world being as before. Otherwise it returns the value it was given; the collection
  holds it after its earlier members, no object is created and every other object is as
  before.
\<close>

theorem construction_errors:
  "((\<exists>e w'. MiddlewareFunction_init f w = Raise e w') \<longleftrightarrow> \<not> iscoroutinefunction f)
   \<and> (\<not> iscoroutinefunction f \<longrightarrow>
        MiddlewareFunction_init f w = Raise (ValueError ''Not a coroutine'') w)
   \<and> (lookup w self = Some (MiddlewareCollection cls g coll) \<longrightarrow>
        ((\<exists>e w'. MiddlewareCollection_add_middleware self mw w = Raise e w')
            \<longleftrightarrow> \<not> isinstance_Middleware w mw)
      \<and> ((\<exists>e w'. add_middleware self mw w = Raise e w') \<longleftrightarrow> \<not> isinstance_Middleware w mw)
      \<and> (\<not> isinstance_Middleware w mw \<longrightarrow>
            MiddlewareCollection_add_middleware self mw w = Raise (ValueError ''Not a middleware'') w
          \<and> add_middleware self mw w = Raise (ValueError ''Not a middleware'') w)
      \<and> (isinstance_Middleware w mw \<longrightarrow>
            (\<exists>w'. MiddlewareCollection_add_middleware self mw w = Return mw w'
                \<and> lookup w' self = Some (MiddlewareCollection cls g (coll @ [mw]))
                \<and> length (heap w') = length (heap w)
                \<and> (\<forall>v. v \<noteq> self \<longrightarrow> lookup w' v = lookup w v))
          \<and> (\<exists>w' g'. add_middleware self mw w = Return mw w'
                \<and> lookup w' self = Some (MiddlewareCollection cls g' (coll @ [mw]))
                \<and> length (heap w') = length (heap w)
                \<and> (\<forall>v. v \<noteq> self \<longrightarrow> lookup w' v = lookup w v))))"
proof -
  have init: "(\<exists>e w'. MiddlewareFunction_init f w = Raise e w') \<longleftrightarrow> \<not> iscoroutinefunction f"
    by (simp add: MiddlewareFunction_init_def new_def)
  have init': "MiddlewareFunction_init f w = Raise (ValueError ''Not a coroutine'') w"
    if "\<not> iscoroutinefunction f"
    using that by (simp add: MiddlewareFunction_init_def)
  have add: "((\<exists>e w'. MiddlewareCollection_add_middleware self mw w = Raise e w')
            \<longleftrightarrow> \<not> isinstance_Middleware w mw)
      \<and> ((\<exists>e w'. add_middleware self mw w = Raise e w') \<longleftrightarrow> \<not> isinstance_Middleware w mw)
      \<and> (\<not> isinstance_Middleware w mw \<longrightarrow>
            MiddlewareCollection_add_middleware self mw w = Raise (ValueError ''Not a middleware'') w
          \<and> add_middleware self mw w = Raise (ValueError ''Not a middleware'') w)
      \<and> (isinstance_Middleware w mw \<longrightarrow>
            (\<exists>w'. MiddlewareCollection_add_middleware self mw w = Return mw w'
                \<and> lookup w' self = Some (MiddlewareCollection cls g (coll @ [mw]))
                \<and> length (heap w') = length (heap w)
                \<and> (\<forall>v. v \<noteq> self \<longrightarrow> lookup w' v = lookup w v))
          \<and> (\<exists>w' g'. add_middleware self mw w = Return mw w'
                \<and> lookup w' self = Some (MiddlewareCollection cls g' (coll @ [mw]))
                \<and> length (heap w') = length (heap w)
                \<and> (\<forall>v. v \<noteq> self \<longrightarrow> lookup w' v = lookup w v)))"
    if self: "lookup w self = Some (MiddlewareCollection cls g coll)"
  proof (cases "isinstance_Middleware w mw")
    case False
    from MiddlewareCollection_add_middleware_not [OF False, of self] add_middleware_not [OF self False]
    show ?thesis
      using False by simp
  next
    case True
    then obtain m where m: "lookup w mw = Some m" "is_Middleware m"
      by (auto simp: isinstance_Middleware_lookup)
    from MiddlewareCollection_add_middleware_ok [OF self True] obtain r where r:
      "self = PRef r" "r < length (heap w)"
      "MiddlewareCollection_add_middleware self mw w
         = Return mw (store r (MiddlewareCollection cls g (coll @ [mw])) w)"
      by blast
    from add_middleware_ok [OF self m] r(1) have a:
      "add_middleware self mw w
         = Return mw (store r (MiddlewareCollection cls
              (if cls = MiddlewareChain \<and> coll = [] then fn m else g) (coll @ [mw])) w)"
      by simp
    have base: "\<exists>w'. MiddlewareCollection_add_middleware self mw w = Return mw w'
                \<and> lookup w' self = Some (MiddlewareCollection cls g (coll @ [mw]))
                \<and> length (heap w') = length (heap w)
                \<and> (\<forall>v. v \<noteq> self \<longrightarrow> lookup w' v = lookup w v)"
      using r by (simp add: lookup_store_same lookup_store_other)
    have disp: "\<exists>w' g'. add_middleware self mw w = Return mw w'
                \<and> lookup w' self = Some (MiddlewareCollection cls g' (coll @ [mw]))
                \<and> length (heap w') = length (heap w)
                \<and> (\<forall>v. v \<noteq> self \<longrightarrow> lookup w' v = lookup w v)"
      using r a by (simp add: lookup_store_same lookup_store_other)
    from True r(3) a base disp show ?thesis
      by simp
  qed
  from init init' add show ?thesis
    by blast
qed

theorem construction_errors_witness:
  "MiddlewareFunction_init (PFunction 0) two_probes_world
     = Raise (ValueError ''Not a coroutine'') two_probes_world
   \<and> add_middleware (PRef 0) (PStr ''x'') two_probes_world
     = Raise (ValueError ''Not a middleware'') two_probes_world
   \<and> (\<exists>w'. MiddlewareCollection_add_middleware (PRef 0) (PRef 2) two_probes_world = Return (PRef 2) w'
         \<and> lookup w' (PRef 0)
             = Some (MiddlewareCollection MiddlewareChain (PCoroutine 0) [PRef 1, PRef 2, PRef 2])
         \<and> lookup w' (PRef 2) = Some (MiddlewareFunction (PCoroutine 1)))"
proof -
  have self: "lookup two_probes_world (PRef 0)
      = Some (MiddlewareCollection MiddlewareChain (PCoroutine 0) [PRef 1, PRef 2])"
    by (simp add: lookup_def two_probes_world_def)
  have nc: "\<not> iscoroutinefunction (PFunction 0)"
    by simp
  have nm: "\<not> isinstance_Middleware two_probes_world (PStr ''x'')"
    by (simp add: isinstance_Middleware_def lookup_def)
  have b: "lookup two_probes_world (PRef 2) = Some (MiddlewareFunction (PCoroutine 1))"
    by (simp add: lookup_def two_probes_world_def)
  then have im: "isinstance_Middleware two_probes_world (PRef 2)"
    by (simp add: isinstance_Middleware_def)
  have 1: "MiddlewareFunction_init (PFunction 0) two_probes_world
     = Raise (ValueError ''Not a coroutine'') two_probes_world"
    using construction_errors [where f = "PFunction 0" and w = two_probes_world] nc
    by blast
  have 2: "add_middleware (PRef 0) (PStr ''x'') two_probes_world
     = Raise (ValueError ''Not a middleware'') two_probes_world"
    using construction_errors [where w = two_probes_world and self = "PRef 0" and mw = "PStr ''x''"]
      self nm
    by blast
  have "\<exists>w'. MiddlewareCollection_add_middleware (PRef 0) (PRef 2) two_probes_world = Return (PRef 2) w'
         \<and> lookup w' (PRef 0)
             = Some (MiddlewareCollection MiddlewareChain (PCoroutine 0) ([PRef 1, PRef 2] @ [PRef 2]))
         \<and> length (heap w') = length (heap two_probes_world)
         \<and> (\<forall>v. v \<noteq> PRef 0 \<longrightarrow> lookup w' v = lookup two_probes_world v)"
    using construction_errors [where w = two_probes_world and self = "PRef 0" and mw = "PRef 2"]
      self im
    by blast
  then obtain w' where w':
      "MiddlewareCollection_add_middleware (PRef 0) (PRef 2) two_probes_world = Return (PRef 2) w'"
      "lookup w' (PRef 0)
         = Some (MiddlewareCollection MiddlewareChain (PCoroutine 0) ([PRef 1, PRef 2] @ [PRef 2]))"
      "\<forall>v. v \<noteq> PRef 0 \<longrightarrow> lookup w' v = lookup two_probes_world v"
    by blast
  from w'(3) b have "lookup w' (PRef 2) = Some (MiddlewareFunction (PCoroutine 1))"
    by simp
  with w'(1) w'(2) have 3: "\<exists>w'. MiddlewareCollection_add_middleware (PRef 0) (PRef 2) two_probes_world = Return (PRef 2) w'
         \<and> lookup w' (PRef 0)
             = Some (MiddlewareCollection MiddlewareChain (PCoroutine 0) [PRef 1, PRef 2, PRef 2])
         \<and> lookup w' (PRef 2) = Some (MiddlewareFunction (PCoroutine 1))"
    by auto
  from 1 2 3 show ?thesis
    by (intro conjI)
qed

lemma lookup_grown: "lookup w v = Some ob \<Longrightarrow> lookup (w\<lparr>heap := heap w @ xs\<rparr>) v = Some ob"
  by (cases v) (auto simp: lookup_def nth_append split: if_splits)

lemma lookup_grown_at:
  "lookup (w\<lparr>heap := heap w @ x # xs\<rparr>) (PRef (length (heap w))) = Some x"
  by (simp add: lookup_def)

lemma lookup_grown_next:
  "lookup (w\<lparr>heap := heap w @ x # y # xs\<rparr>) (PRef (Suc (length (heap w)))) = Some y"
  by (simp add: lookup_def nth_append)

lemma store_grown:
  "store (length (heap w)) ob (w\<lparr>heap := heap w @ x # xs\<rparr>) = w\<lparr>heap := heap w @ ob # xs\<rparr>"
  by (simp add: store_def)

lemma grow_grown: "(w\<lparr>heap := heap w @ xs\<rparr>)\<lparr>heap := heap (w\<lparr>heap := heap w @ xs\<rparr>) @ ys\<rparr>
    = w\<lparr>heap := heap w @ xs @ ys\<rparr>"
  by simp

lemma isinstance_grown:
  "isinstance_Middleware w v \<Longrightarrow> isinstance_Middleware (w\<lparr>heap := heap w @ xs\<rparr>) v"
  by (auto simp: isinstance_Middleware_def lookup_grown split: option.splits)

lemma not_isinstance_value:
  "\<not> isinstance_Middleware w v \<Longrightarrow> lookup w v = None \<or> (\<exists>k. lookup w v = Some (Instance k))"
  by (cases "lookup w v") (auto simp: isinstance_Middleware_def elim: is_Middleware.elims)

lemma middleware_unit:
  "isinstance_Middleware w outer \<Longrightarrow> middleware outer w = Return (decorator outer) w"
  by (simp add: middleware_def and_then_def)

lemma middleware_coroutine:
  assumes "iscoroutinefunction outer"
  shows "middleware outer w
     = Return (decorator (PRef (length (heap w)))) (w\<lparr>heap := heap w @ [MiddlewareFunction outer]\<rparr>)"
  using assms iscoroutinefunction_not_Middleware [OF assms, of w] as_middleware_coroutine [OF assms, of w]
  by (simp add: middleware_def and_then_def)

lemma middleware_other:
  assumes "\<not> isinstance_Middleware w outer" and "\<not> iscoroutinefunction outer"
  shows "middleware outer w = Raise (ValueError ''Not a coroutine'') w"
  using assms as_middleware_other [OF assms(2), of w]
  by (simp add: middleware_def and_then_def)

lemma decorator_chain:
  assumes inner: "lookup w inner = Some (MiddlewareCollection MiddlewareChain g coll)"
      and outer: "lookup w outer = Some m" "is_Middleware m"
  shows "\<exists>r. inner = PRef r \<and> r < length (heap w)
     \<and> decorator outer inner w
       = Return inner (store r (MiddlewareCollection MiddlewareChain
            (if coll = [] then fn m else g) (coll @ [outer])) w)"
proof -
  have chain: "isinstance_MiddlewareChain w inner"
    using inner by (simp add: isinstance_MiddlewareChain_def)
  from MiddlewareChain_add_middleware_ok [OF inner outer] obtain r where r:
    "inner = PRef r" "r < length (heap w)"
    "MiddlewareChain_add_middleware inner outer w
       = Return outer (store r (MiddlewareCollection MiddlewareChain
            (if coll = [] then fn m else g) (coll @ [outer])) w)"
    by blast
  from chain r(3) have "decorator outer inner w
       = Return inner (store r (MiddlewareCollection MiddlewareChain
            (if coll = [] then fn m else g) (coll @ [outer])) w)"
    by (simp add: decorator_def and_then_def)
  with r show ?thesis
    by blast
qed

lemma chain_of_two_units:
  assumes inner: "lookup w inner = Some i" "is_Middleware i"
      and outer: "lookup w outer = Some m" "is_Middleware m"
  shows "chain_of [inner, outer] w
     = Return (PRef (length (heap w)))
         (w\<lparr>heap := heap w @ [MiddlewareCollection MiddlewareChain (fn i) [inner, outer]]\<rparr>)"
proof -
  define n where "n = length (heap w)"
  define w0 where "w0 = w\<lparr>heap := heap w @ [MiddlewareCollection MiddlewareChain PNone []]\<rparr>"
  define w1 where "w1 = w\<lparr>heap := heap w @ [MiddlewareCollection MiddlewareChain (fn i) [inner]]\<rparr>"
  define w2 where "w2 = w\<lparr>heap := heap w @ [MiddlewareCollection MiddlewareChain (fn i) [inner, outer]]\<rparr>"
  have init: "MiddlewareCollection_init MiddlewareChain w = Return (PRef n) w0"
    by (simp add: MiddlewareCollection_init_def new_def n_def w0_def)
  have self0: "lookup w0 (PRef n) = Some (MiddlewareCollection MiddlewareChain PNone [])"
    unfolding w0_def n_def by (rule lookup_grown_at)
  have inner0: "lookup w0 inner = Some i"
    unfolding w0_def using inner(1) by (rule lookup_grown)
  have inst0: "isinstance_Middleware w0 inner"
    using inner0 inner(2) by (simp add: isinstance_Middleware_def)
  from add_middleware_ok [OF self0 inner0 inner(2)]
  have "add_middleware (PRef n) inner w0
      = Return inner (store n (MiddlewareCollection MiddlewareChain (fn i) [inner]) w0)"
    by simp
  moreover have "store n (MiddlewareCollection MiddlewareChain (fn i) [inner]) w0 = w1"
    unfolding w0_def w1_def n_def by (rule store_grown)
  ultimately have add1: "add_middleware (PRef n) inner w0 = Return inner w1"
    by simp
  have self1: "lookup w1 (PRef n) = Some (MiddlewareCollection MiddlewareChain (fn i) [inner])"
    unfolding w1_def n_def by (rule lookup_grown_at)
  have outer1: "lookup w1 outer = Some m"
    unfolding w1_def using outer(1) by (rule lookup_grown)
  have inst1: "isinstance_Middleware w1 outer"
    using outer1 outer(2) by (simp add: isinstance_Middleware_def)
  from add_middleware_ok [OF self1 outer1 outer(2)]
  have "add_middleware (PRef n) outer w1
      = Return outer (store n (MiddlewareCollection MiddlewareChain (fn i) [inner, outer]) w1)"
    by simp
  moreover have "store n (MiddlewareCollection MiddlewareChain (fn i) [inner, outer]) w1 = w2"
    unfolding w1_def w2_def n_def by (rule store_grown)
  ultimately have add2: "add_middleware (PRef n) outer w1 = Return outer w2"
    by simp
  have "collection_of_loop (PRef n) [inner, outer] w0 = Return (PRef n) w2"
    using inst0 add1 inst1 add2 by (simp add: and_then_def)
  with init show ?thesis
    by (simp add: chain_of_def collection_of_def and_then_def n_def w2_def)
qed

lemma chain_of_coroutine_unit:
  assumes inner: "iscoroutinefunction inner"
      and outer: "lookup w outer = Some m" "is_Middleware m"
  shows "chain_of [inner, outer] w
     = Return (PRef (length (heap w)))
         (w\<lparr>heap := heap w @ [MiddlewareCollection MiddlewareChain inner
                                  [PRef (Suc (length (heap w))), outer],
                                MiddlewareFunction inner]\<rparr>)"
proof -
  define n where "n = length (heap w)"
  define w0 where "w0 = w\<lparr>heap := heap w @ [MiddlewareCollection MiddlewareChain PNone []]\<rparr>"
  define w0' where "w0' = w\<lparr>heap := heap w @ [MiddlewareCollection MiddlewareChain PNone [],
      MiddlewareFunction inner]\<rparr>"
  define w1 where "w1 = w\<lparr>heap := heap w @ [MiddlewareCollection MiddlewareChain inner [PRef (Suc n)],
      MiddlewareFunction inner]\<rparr>"
  define w2 where "w2 = w\<lparr>heap := heap w @ [MiddlewareCollection MiddlewareChain inner
      [PRef (Suc n), outer], MiddlewareFunction inner]\<rparr>"
  have init: "MiddlewareCollection_init MiddlewareChain w = Return (PRef n) w0"
    by (simp add: MiddlewareCollection_init_def new_def n_def w0_def)
  have inst0: "\<not> isinstance_Middleware w0 inner"
    using inner by (rule iscoroutinefunction_not_Middleware)
  have wrap: "as_middleware inner w0 = Return (PRef (Suc n)) w0'"
    using as_middleware_coroutine [OF inner, of w0] by (simp add: w0_def w0'_def n_def)
  have self0: "lookup w0' (PRef n) = Some (MiddlewareCollection MiddlewareChain PNone [])"
    unfolding w0'_def n_def by (rule lookup_grown_at)
  have inner0: "lookup w0' (PRef (Suc n)) = Some (MiddlewareFunction inner)"
    unfolding w0'_def n_def by (rule lookup_grown_next)
  from add_middleware_ok [OF self0 inner0]
  have "add_middleware (PRef n) (PRef (Suc n)) w0'
      = Return (PRef (Suc n)) (store n (MiddlewareCollection MiddlewareChain inner [PRef (Suc n)]) w0')"
    by simp
  moreover have "store n (MiddlewareCollection MiddlewareChain inner [PRef (Suc n)]) w0' = w1"
    unfolding w0'_def w1_def n_def by (rule store_grown)
  ultimately have add1: "add_middleware (PRef n) (PRef (Suc n)) w0' = Return (PRef (Suc n)) w1"
    by simp
  have self1: "lookup w1 (PRef n) = Some (MiddlewareCollection MiddlewareChain inner [PRef (Suc n)])"
    unfolding w1_def n_def by (rule lookup_grown_at)
  have outer1: "lookup w1 outer = Some m"
    unfolding w1_def using outer(1) by (rule lookup_grown)
  have inst1: "isinstance_Middleware w1 outer"
    using outer1 outer(2) by (simp add: isinstance_Middleware_def)
  from add_middleware_ok [OF self1 outer1 outer(2)]
  have "add_middleware (PRef n) outer w1
      = Return outer (store n (MiddlewareCollection MiddlewareChain inner [PRef (Suc n), outer]) w1)"
    by simp
  moreover have "store n (MiddlewareCollection MiddlewareChain inner [PRef (Suc n), outer]) w1 = w2"
    unfolding w1_def w2_def n_def by (rule store_grown)
  ultimately have add2: "add_middleware (PRef n) outer w1 = Return outer w2"
    by simp
  have "collection_of_loop (PRef n) [inner, outer] w0 = Return (PRef n) w2"
    using inst0 wrap add1 inst1 add2 by (simp add: and_then_def)
  with init show ?thesis
    by (simp add: chain_of_def collection_of_def and_then_def n_def w2_def)
qed

lemma chain_of_other:
  assumes "\<not> isinstance_Middleware w inner" and "\<not> iscoroutinefunction inner"
      and live: "\<And>r. inner = PRef r \<Longrightarrow> r < length (heap w)"
  shows "chain_of [inner, outer] w
     = Raise (ValueError ''Not a coroutine'')
         (w\<lparr>heap := heap w @ [MiddlewareCollection MiddlewareChain PNone []]\<rparr>)"
proof -
  define w0 where "w0 = w\<lparr>heap := heap w @ [MiddlewareCollection MiddlewareChain PNone []]\<rparr>"
  have init: "MiddlewareCollection_init MiddlewareChain w = Return (PRef (length (heap w))) w0"
    by (simp add: MiddlewareCollection_init_def new_def w0_def)
  have inner_w: "inner \<noteq> PRef (length (heap w))"
    using live by auto
  have "lookup w0 inner = lookup w inner"
    unfolding w0_def using inner_w by (simp add: lookup_new)
  with assms(1) have inst0: "\<not> isinstance_Middleware w0 inner"
    by (simp add: isinstance_Middleware_def)
  have "collection_of_loop (PRef (length (heap w))) [inner, outer] w0
      = Raise (ValueError ''Not a coroutine'') w0"
    using inst0 as_middleware_other [OF assms(2), of w0] by (simp add: and_then_def)
  with init show ?thesis
    by (simp add: chain_of_def collection_of_def and_then_def w0_def)
qed

lemma not_chain_coroutine: "iscoroutinefunction v \<Longrightarrow> \<not> isinstance_MiddlewareChain w v"
  by (cases v) (simp_all add: isinstance_MiddlewareChain_def lookup_def)

lemma decorator_unit:
  assumes inner: "lookup w inner = Some i" "is_Middleware i" "\<not> isinstance_MiddlewareChain w inner"
      and outer: "lookup w outer = Some m" "is_Middleware m"
  shows "decorator outer inner w
     = Return (PRef (length (heap w)))
         (w\<lparr>heap := heap w @ [MiddlewareCollection MiddlewareChain (fn i) [inner, outer]]\<rparr>)"
  using inner(3) chain_of_two_units [OF inner(1) inner(2) outer]
  by (simp add: decorator_def)

lemma decorator_coroutine:
  assumes inner: "iscoroutinefunction inner"
      and outer: "lookup w outer = Some m" "is_Middleware m"
  shows "decorator outer inner w
     = Return (PRef (length (heap w)))
         (w\<lparr>heap := heap w @ [MiddlewareCollection MiddlewareChain inner
                                  [PRef (Suc (length (heap w))), outer],
                                MiddlewareFunction inner]\<rparr>)"
  using not_chain_coroutine [OF inner, of w] chain_of_coroutine_unit [OF inner outer]
  by (simp add: decorator_def)

lemma not_chain_not_Middleware:
  "\<not> isinstance_Middleware w v \<Longrightarrow> \<not> isinstance_MiddlewareChain w v"
  by (cases "lookup w v")
     (auto simp: isinstance_Middleware_def isinstance_MiddlewareChain_def split: obj.splits)

lemma decorator_other:
  assumes "\<not> isinstance_Middleware w inner" and "\<not> iscoroutinefunction inner"
      and "\<And>r. inner = PRef r \<Longrightarrow> r < length (heap w)"
  shows "decorator outer inner w
     = Raise (ValueError ''Not a coroutine'')
         (w\<lparr>heap := heap w @ [MiddlewareCollection MiddlewareChain PNone []]\<rparr>)"
  using not_chain_not_Middleware [OF assms(1)] chain_of_other [OF assms, of outer]
  by (simp add: decorator_def)

text \<open>
  C9, as the code has it: \<^verbatim>\<open>middleware(f)\<close> returns the decorator for \<open>f\<close> itself when
  \<open>f\<close> is a middleware, and for a new \<^verbatim>\<open>MiddlewareFunction\<close> holding \<open>f\<close> when \<open>f\<close> is a
  coroutine function; for any other \<open>f\<close> it raises \<^verbatim>\<open>ValueError\<close> and returns no
  decorator. The decorator for a middleware \<open>outer\<close>, applied to a chain, returns that
  chain, which holds \<open>outer\<close> after its earlier members: no object is created and every
  other object is as before. Applied to another middleware \<open>inner\<close> it returns a new
  chain whose members are \<open>[inner, outer]\<close>; applied to a coroutine function it returns
  a new chain whose members are the new \<^verbatim>\<open>MiddlewareFunction\<close> holding it, then
  \<open>outer\<close>. Applied to any other value it raises \<^verbatim>\<open>ValueError\<close> and returns no chain;
  the empty chain it had created is left in the world.
\<close>

theorem middleware_decorator:
  "(isinstance_Middleware w0 f \<longrightarrow> middleware f w0 = Return (decorator f) w0)
   \<and> (iscoroutinefunction f \<longrightarrow>
        middleware f w0 = Return (decorator (PRef (length (heap w0))))
                            (w0\<lparr>heap := heap w0 @ [MiddlewareFunction f]\<rparr>))
   \<and> (lookup w outer = Some m \<and> is_Middleware m \<longrightarrow>
        (lookup w inner = Some (MiddlewareCollection MiddlewareChain g coll) \<longrightarrow>
           (\<exists>w'. decorator outer inner w = Return inner w'
               \<and> lookup w' inner = Some (MiddlewareCollection MiddlewareChain
                     (if coll = [] then fn m else g) (coll @ [outer]))
               \<and> length (heap w') = length (heap w)
               \<and> (\<forall>v. v \<noteq> inner \<longrightarrow> lookup w' v = lookup w v)))
      \<and> (lookup w inner = Some i \<and> is_Middleware i \<and> \<not> isinstance_MiddlewareChain w inner \<longrightarrow>
           decorator outer inner w
             = Return (PRef (length (heap w)))
                 (w\<lparr>heap := heap w @ [MiddlewareCollection MiddlewareChain (fn i) [inner, outer]]\<rparr>)
           \<and> lookup w (PRef (length (heap w))) = None)
      \<and> (iscoroutinefunction inner \<longrightarrow>
           decorator outer inner w
             = Return (PRef (length (heap w)))
                 (w\<lparr>heap := heap w @ [MiddlewareCollection MiddlewareChain inner
                                          [PRef (Suc (length (heap w))), outer],
                                        MiddlewareFunction inner]\<rparr>)
           \<and> lookup w (PRef (length (heap w))) = None))
   \<and> (\<not> isinstance_Middleware w0 f \<and> \<not> iscoroutinefunction f \<longrightarrow>
        middleware f w0 = Raise (ValueError ''Not a coroutine'') w0)
   \<and> (\<not> isinstance_Middleware w inner \<and> \<not> iscoroutinefunction inner
        \<and> (\<forall>r. inner = PRef r \<longrightarrow> r < length (heap w)) \<longrightarrow>
        decorator outer inner w
          = Raise (ValueError ''Not a coroutine'')
              (w\<lparr>heap := heap w @ [MiddlewareCollection MiddlewareChain PNone []]\<rparr>))"
proof -
  have 7: "middleware f w0 = Raise (ValueError ''Not a coroutine'') w0"
    if "\<not> isinstance_Middleware w0 f" "\<not> iscoroutinefunction f"
    using that by (rule middleware_other)
  have 8: "decorator outer inner w
          = Raise (ValueError ''Not a coroutine'')
              (w\<lparr>heap := heap w @ [MiddlewareCollection MiddlewareChain PNone []]\<rparr>)"
    if "\<not> isinstance_Middleware w inner" "\<not> iscoroutinefunction inner"
       "\<forall>r. inner = PRef r \<longrightarrow> r < length (heap w)"
    using that by (intro decorator_other) simp_all
  have 1: "middleware f w0 = Return (decorator f) w0" if "isinstance_Middleware w0 f"
    using that by (rule middleware_unit)
  have 2: "middleware f w0 = Return (decorator (PRef (length (heap w0))))
                            (w0\<lparr>heap := heap w0 @ [MiddlewareFunction f]\<rparr>)"
    if "iscoroutinefunction f"
    using that by (rule middleware_coroutine)
  have 3: "\<exists>w'. decorator outer inner w = Return inner w'
               \<and> lookup w' inner = Some (MiddlewareCollection MiddlewareChain
                     (if coll = [] then fn m else g) (coll @ [outer]))
               \<and> length (heap w') = length (heap w)
               \<and> (\<forall>v. v \<noteq> inner \<longrightarrow> lookup w' v = lookup w v)"
    if outer: "lookup w outer = Some m" "is_Middleware m"
      and inner: "lookup w inner = Some (MiddlewareCollection MiddlewareChain g coll)"
  proof -
    from decorator_chain [OF inner outer] obtain r where r:
      "inner = PRef r" "r < length (heap w)"
      "decorator outer inner w
         = Return inner (store r (MiddlewareCollection MiddlewareChain
              (if coll = [] then fn m else g) (coll @ [outer])) w)"
      by blast
    then show ?thesis
      by (simp add: lookup_store_same lookup_store_other)
  qed
  have 4: "decorator outer inner w
             = Return (PRef (length (heap w)))
                 (w\<lparr>heap := heap w @ [MiddlewareCollection MiddlewareChain (fn i) [inner, outer]]\<rparr>)"
    if "lookup w outer = Some m" "is_Middleware m"
      and "lookup w inner = Some i" "is_Middleware i" "\<not> isinstance_MiddlewareChain w inner"
    using decorator_unit [OF that(3) that(4) that(5) that(1) that(2)] .
  have 5: "decorator outer inner w
             = Return (PRef (length (heap w)))
                 (w\<lparr>heap := heap w @ [MiddlewareCollection MiddlewareChain inner
                                          [PRef (Suc (length (heap w))), outer],
                                        MiddlewareFunction inner]\<rparr>)"
    if "lookup w outer = Some m" "is_Middleware m" and "iscoroutinefunction inner"
    using decorator_coroutine [OF that(3) that(1) that(2)] .
  have 6: "lookup w (PRef (length (heap w))) = None"
    by simp
  from 1 2 3 4 5 6 7 8 show ?thesis
    by blast
qed

theorem middleware_decorator_witness:
  "middleware (PCoroutine 1) empty_world
     = Return (decorator (PRef 0)) (empty_world\<lparr>heap := [MiddlewareFunction (PCoroutine 1)]\<rparr>)
   \<and> decorator (PRef 0) (PCoroutine 0) (empty_world\<lparr>heap := [MiddlewareFunction (PCoroutine 1)]\<rparr>)
     = Return (PRef 1) decorated_world
   \<and> (\<exists>w'. decorator (PRef 2) (PRef 1) decorated_world = Return (PRef 1) w'
         \<and> lookup w' (PRef 1)
             = Some (MiddlewareCollection MiddlewareChain (PCoroutine 0) [PRef 2, PRef 0, PRef 2])
         \<and> length (heap w') = 3)"
proof -
  define wa where "wa = empty_world\<lparr>heap := [MiddlewareFunction (PCoroutine 1)]\<rparr>"
  have h0: "heap empty_world = []"
    by (simp add: empty_world_def)
  have c1: "iscoroutinefunction (PCoroutine 1)" and c0: "iscoroutinefunction (PCoroutine 0)"
    by simp_all
  have 1: "middleware (PCoroutine 1) empty_world = Return (decorator (PRef 0)) wa"
    using middleware_decorator [where f = "PCoroutine 1" and ?w0.0 = empty_world] c1 h0
    by (simp add: wa_def)
  have outer: "lookup wa (PRef 0) = Some (MiddlewareFunction (PCoroutine 1))"
      "is_Middleware (MiddlewareFunction (PCoroutine 1))"
    by (simp_all add: lookup_def wa_def)
  have "decorator (PRef 0) (PCoroutine 0) wa
      = Return (PRef (length (heap wa)))
          (wa\<lparr>heap := heap wa @ [MiddlewareCollection MiddlewareChain (PCoroutine 0)
                                    [PRef (Suc (length (heap wa))), PRef 0],
                                  MiddlewareFunction (PCoroutine 0)]\<rparr>)"
    using middleware_decorator [where w = wa and outer = "PRef 0" and inner = "PCoroutine 0"
        and m = "MiddlewareFunction (PCoroutine 1)"] outer c0
    by blast
  then have 2: "decorator (PRef 0) (PCoroutine 0) wa = Return (PRef 1) decorated_world"
    by (simp add: wa_def decorated_world_def empty_world_def)
  have outer': "lookup decorated_world (PRef 2) = Some (MiddlewareFunction (PCoroutine 0))"
      "is_Middleware (MiddlewareFunction (PCoroutine 0))"
    by (simp_all add: lookup_def decorated_world_def)
  have inner': "lookup decorated_world (PRef 1)
      = Some (MiddlewareCollection MiddlewareChain (PCoroutine 0) [PRef 2, PRef 0])"
    by (simp add: lookup_def decorated_world_def)
  have "\<exists>w'. decorator (PRef 2) (PRef 1) decorated_world = Return (PRef 1) w'
         \<and> lookup w' (PRef 1)
             = Some (MiddlewareCollection MiddlewareChain
                  (if [PRef 2, PRef 0] = [] then fn (MiddlewareFunction (PCoroutine 0)) else PCoroutine 0)
                  ([PRef 2, PRef 0] @ [PRef 2]))
         \<and> length (heap w') = length (heap decorated_world)
         \<and> (\<forall>v. v \<noteq> PRef 1 \<longrightarrow> lookup w' v = lookup decorated_world v)"
    using middleware_decorator [where w = decorated_world and outer = "PRef 2" and inner = "PRef 1"
        and m = "MiddlewareFunction (PCoroutine 0)" and g = "PCoroutine 0" and coll = "[PRef 2, PRef 0]"]
      outer' inner'
    by blast
  moreover have "length (heap decorated_world) = 3"
    by (simp add: decorated_world_def)
  ultimately have 3: "\<exists>w'. decorator (PRef 2) (PRef 1) decorated_world = Return (PRef 1) w'
         \<and> lookup w' (PRef 1)
             = Some (MiddlewareCollection MiddlewareChain (PCoroutine 0) [PRef 2, PRef 0, PRef 2])
         \<and> length (heap w') = 3"
    by auto
  from 1 2 3 show ?thesis
    unfolding wa_def by (intro conjI)
qed

text \<open>
  The claim as stated fails where a value is neither a middleware nor a coroutine
  function: \<^verbatim>\<open>middleware\<close> of a plain function raises and returns no decorator, and a
  decorator applied to a plain function, or to \<^verbatim>\<open>None\<close>, raises and returns no chain.
\<close>

theorem middleware_decorator_can_raise:
  "middleware (PFunction 0) empty_world = Raise (ValueError ''Not a coroutine'') empty_world
   \<and> \<not> (\<exists>d w. middleware (PFunction 0) empty_world = Return d w)
   \<and> isinstance_Middleware (empty_world\<lparr>heap := [MiddlewareFunction (PCoroutine 1)]\<rparr>) (PRef 0)
   \<and> decorator (PRef 0) (PFunction 0) (empty_world\<lparr>heap := [MiddlewareFunction (PCoroutine 1)]\<rparr>)
       = Raise (ValueError ''Not a coroutine'')
           (empty_world\<lparr>heap := [MiddlewareFunction (PCoroutine 1),
                                   MiddlewareCollection MiddlewareChain PNone []]\<rparr>)
   \<and> \<not> (\<exists>u w. decorator (PRef 0) (PFunction 0)
                  (empty_world\<lparr>heap := [MiddlewareFunction (PCoroutine 1)]\<rparr>) = Return u w)
   \<and> decorator (PRef 0) PNone (empty_world\<lparr>heap := [MiddlewareFunction (PCoroutine 1)]\<rparr>)
       = Raise (ValueError ''Not a coroutine'')
           (empty_world\<lparr>heap := [MiddlewareFunction (PCoroutine 1),
                                   MiddlewareCollection MiddlewareChain PNone []]\<rparr>)"
proof -
  define wa where "wa = empty_world\<lparr>heap := [MiddlewareFunction (PCoroutine 1)]\<rparr>"
  define wb where "wb = empty_world\<lparr>heap := [MiddlewareFunction (PCoroutine 1),
      MiddlewareCollection MiddlewareChain PNone []]\<rparr>"
  have 1: "middleware (PFunction 0) empty_world = Raise (ValueError ''Not a coroutine'') empty_world"
    by (simp add: middleware_def isinstance_Middleware_def lookup_def as_middleware_def
        MiddlewareFunction_init_def and_then_def)
  then have 2: "\<not> (\<exists>d w. middleware (PFunction 0) empty_world = Return d w)"
    by simp
  have 3: "isinstance_Middleware wa (PRef 0)"
    by (simp add: isinstance_Middleware_def lookup_def wa_def)
  have grow: "wa\<lparr>heap := heap wa @ [MiddlewareCollection MiddlewareChain PNone []]\<rparr> = wb"
    by (simp add: wa_def wb_def)
  have 4: "decorator (PRef 0) (PFunction 0) wa = Raise (ValueError ''Not a coroutine'') wb"
    using decorator_other [of wa "PFunction 0" "PRef 0"]
    by (simp add: isinstance_Middleware_def lookup_def grow)
  then have 5: "\<not> (\<exists>u w. decorator (PRef 0) (PFunction 0) wa = Return u w)"
    by simp
  have 6: "decorator (PRef 0) PNone wa = Raise (ValueError ''Not a coroutine'') wb"
    using decorator_other [of wa PNone "PRef 0"]
    by (simp add: isinstance_Middleware_def lookup_def grow)
  from 1 2 3 4 5 6 show ?thesis
    unfolding wa_def wb_def by (intro conjI)
qed

end
